theory Spec2Isabelle
  imports Complex_Main "HOL-Library.Monad_Syntax" "HOL-Library.Product_Lexorder"
begin

section \<open>Python library functions the scripts call\<close>

text \<open>
  The scripts are Python. Python integers are modelled as \<^typ>\<open>int\<close>, Python floats as
  exact rationals (\<^typ>\<open>rat\<close>): every float the scripts compute is a quotient or a sum of
  quotients of integers, and rounding is left out of the model.
  An operation that raises \<open>ZeroDivisionError\<close> returns \<open>None\<close>.
\<close>

definition truediv :: "rat \<Rightarrow> rat \<Rightarrow> rat option" where
  \<comment> \<open>Python's \<open>a / b\<close>\<close>
  "truediv a b = (if b = 0 then None else Some (a / b))"

definition floordiv :: "int \<Rightarrow> int \<Rightarrow> int option" where
  \<comment> \<open>Python's \<open>a // b\<close>\<close>
  "floordiv a b = (if b = 0 then None else Some (a div b))"

definition pymod :: "int \<Rightarrow> int \<Rightarrow> int option" where
  \<comment> \<open>Python's \<open>a % b\<close>\<close>
  "pymod a b = (if b = 0 then None else Some (a mod b))"

text \<open>
  \<open>mapM f xs\<close> is a list comprehension or an appending loop whose body \<open>f\<close> may raise:
  the first exception ends it.
\<close>

fun mapM :: "('a \<Rightarrow> 'b option) \<Rightarrow> 'a list \<Rightarrow> 'b list option" where
  "mapM f [] = Some []"
| "mapM f (x # xs) = (case f x of None \<Rightarrow> None
     | Some y \<Rightarrow> (case mapM f xs of None \<Rightarrow> None | Some ys \<Rightarrow> Some (y # ys)))"

definition pyslice :: "nat \<Rightarrow> nat \<Rightarrow> 'a list \<Rightarrow> 'a list" where
  \<comment> \<open>\<open>xs[a:b]\<close> for indices that are not negative\<close>
  "pyslice a b xs = take (b - a) (drop a xs)"

definition last_n :: "nat \<Rightarrow> 'a list \<Rightarrow> 'a list" where
  \<comment> \<open>\<open>xs[-n:]\<close> for \<open>0 < n\<close>: the last \<open>n\<close> elements, all of them when there are fewer\<close>
  "last_n n xs = drop (length xs - n) xs"

definition average :: "rat list \<Rightarrow> rat option" where
  \<comment> \<open>the expression \<open>sum(xs) / len(xs)\<close>\<close>
  "average xs = truediv (sum_list xs) (of_nat (length xs))"

text \<open>
  A \<open>defaultdict\<close> is an association list in insertion order. \<open>setdefault_upd k d f\<close> is
  the statement \<open>m[k] = f(m[k])\<close> on a \<open>defaultdict\<close> whose factory yields \<open>d\<close>: a
  missing key is appended with \<open>f d\<close>.
\<close>

fun setdefault_upd :: "'k \<Rightarrow> 'v \<Rightarrow> ('v \<Rightarrow> 'v) \<Rightarrow> ('k \<times> 'v) list \<Rightarrow> ('k \<times> 'v) list" where
  "setdefault_upd k d f [] = [(k, f d)]"
| "setdefault_upd k d f ((k', v) # kvs) =
     (if k = k' then (k', f v) # kvs else (k', v) # setdefault_upd k d f kvs)"

subsection \<open>datetime: ordinals, ISO calendar\<close>

record date =
  year :: int
  month :: int
  day :: int

definition is_leap :: "int \<Rightarrow> bool" where
  "is_leap y = (y mod 4 = 0 \<and> (y mod 100 \<noteq> 0 \<or> y mod 400 = 0))"

definition days_before_year :: "int \<Rightarrow> int" where
  "days_before_year y = (let y1 = y - 1 in y1 * 365 + y1 div 4 - y1 div 100 + y1 div 400)"

definition days_in_month :: "int \<Rightarrow> int \<Rightarrow> int" where
  "days_in_month y m =
     (if m = 2 \<and> is_leap y then 29
      else [31, 28, 31, 30, 31, 30, 31, 31, 30, 31, 30, 31] ! nat (m - 1))"

definition days_before_month :: "int \<Rightarrow> int \<Rightarrow> int" where
  "days_before_month y m =
     [0, 31, 59, 90, 120, 151, 181, 212, 243, 273, 304, 334] ! nat (m - 1)
       + (if m > 2 \<and> is_leap y then 1 else 0)"

definition valid_date :: "date \<Rightarrow> bool" where
  \<comment> \<open>the dates \<open>datetime\<close> constructs: \<open>MINYEAR = 1\<close>, \<open>MAXYEAR = 9999\<close>\<close>
  "valid_date d = (1 \<le> year d \<and> year d \<le> 9999 \<and> 1 \<le> month d \<and> month d \<le> 12
     \<and> 1 \<le> day d \<and> day d \<le> days_in_month (year d) (month d))"

definition ymd2ord :: "int \<Rightarrow> int \<Rightarrow> int \<Rightarrow> int" where
  "ymd2ord y m d = days_before_year y + days_before_month y m + d"

definition toordinal :: "date \<Rightarrow> int" where
  "toordinal d = ymd2ord (year d) (month d) (day d)"

definition weekday :: "date \<Rightarrow> int" where
  \<comment> \<open>Monday is 0\<close>
  "weekday d = (toordinal d + 6) mod 7"

definition isoweek1monday :: "int \<Rightarrow> int" where
  "isoweek1monday y =
     (let firstday = ymd2ord y 1 1;
          firstweekday = (firstday + 6) mod 7;
          week1monday = firstday - firstweekday
      in if firstweekday > 3 then week1monday + 7 else week1monday)"

definition isocalendar :: "date \<Rightarrow> int \<times> int \<times> int" where
  "isocalendar d =
     (let y = year d;
          week1monday = isoweek1monday y;
          today = toordinal d;
          week = (today - week1monday) div 7;
          wday = (today - week1monday) mod 7
      in if week < 0 then
           (let y' = y - 1; week1monday' = isoweek1monday y'
            in (y', (today - week1monday') div 7 + 1, (today - week1monday') mod 7 + 1))
         else if week \<ge> 52 \<and> today \<ge> isoweek1monday (y + 1) then (y + 1, 1, wday + 1)
         else (y, week + 1, wday + 1))"

text \<open>
  A timezone-aware \<open>datetime\<close> in UTC (every timestamp of the API ends in \<open>Z\<close>): the
  date and the microseconds since midnight. Two of them compare by their instants.
\<close>

record datetime =
  dt_date :: date
  dt_micro :: int

definition instant :: "datetime \<Rightarrow> int" where
  "instant t = toordinal (dt_date t) * 86400000000 + dt_micro t"

text \<open>
  The scripts format the two keys as strings,
  \<^verbatim>\<open>week_key = f"{iso_year}-W{iso_week:02d}"\<close> and \<^verbatim>\<open>month_key = date.strftime("%Y-%m")\<close>.
  Both formats are one-to-one on the pairs they print, and the keys are only compared and
  sorted, so a key is modelled as the pair itself. (For four-digit years the order of the
  month strings is the order of the pairs.)
\<close>

type_synonym week_key = "int \<times> int"
type_synonym month_key = "int \<times> int"

definition week_key :: "date \<Rightarrow> week_key" where
  "week_key d = (case isocalendar d of (iso_year, iso_week, _) \<Rightarrow> (iso_year, iso_week))"

definition month_key :: "date \<Rightarrow> month_key" where
  "month_key d = (year d, month d)"

section \<open>monthly\_productivity\_analysis.py\<close>

subsection \<open>Bucketing by ISO week and month\<close>

text \<open>An element of \<open>all_contributions\<close>: a fetched day and its contribution count.\<close>

record contribution =
  c_date :: date
  c_count :: int

text \<open>A value of \<open>weekly_stats[week_key]["days_by_month"]\<close>.\<close>

record mp_days =
  mp_count :: int
  mp_contributions :: int

type_synonym mp_week = "(month_key \<times> mp_days) list"

text \<open>A value of \<open>monthly_stats\<close>.\<close>

record mp_stats =
  mp_total :: int
  mp_week_fraction :: rat

definition mp_track :: "contribution \<Rightarrow> (week_key \<times> mp_week) list \<Rightarrow> (week_key \<times> mp_week) list" where
  \<comment> \<open>the body of the loop over \<open>all_contributions\<close>\<close>
  "mp_track contrib weekly_stats =
     setdefault_upd (week_key (c_date contrib)) []
       (setdefault_upd (month_key (c_date contrib)) \<lparr>mp_count = 0, mp_contributions = 0\<rparr>
          (\<lambda>m. m\<lparr>mp_count := mp_count m + 1,
                 mp_contributions := mp_contributions m + c_count contrib\<rparr>))
       weekly_stats"

definition mp_weekly_stats :: "contribution list \<Rightarrow> (week_key \<times> mp_week) list" where
  "mp_weekly_stats all_contributions = foldl (\<lambda>ws c. mp_track c ws) [] all_contributions"

definition mp_total_days_in_week :: "mp_week \<Rightarrow> int" where
  "mp_total_days_in_week week_data = sum_list (map (\<lambda>(k, m). mp_count m) week_data)"

definition mp_fraction :: "mp_days \<Rightarrow> rat option" where
  \<comment> \<open>\<^verbatim>\<open>week_fraction = days_in_this_month / 7.0\<close>\<close>
  "mp_fraction month_data = truediv (of_int (mp_count month_data)) 7"

fun mp_assign_week :: "mp_week \<Rightarrow> (month_key \<times> mp_stats) list \<Rightarrow> (month_key \<times> mp_stats) list option" where
  \<comment> \<open>the inner loop: the months one week spans\<close>
  "mp_assign_week [] monthly_stats = Some monthly_stats"
| "mp_assign_week ((mk, month_data) # rest) monthly_stats =
     (case mp_fraction month_data of None \<Rightarrow> None
      | Some week_fraction \<Rightarrow>
          mp_assign_week rest
            (setdefault_upd mk \<lparr>mp_total = 0, mp_week_fraction = 0\<rparr>
               (\<lambda>s. s\<lparr>mp_total := mp_total s + mp_contributions month_data,
                      mp_week_fraction := mp_week_fraction s + week_fraction\<rparr>)
               monthly_stats))"

fun mp_assign :: "(week_key \<times> mp_week) list \<Rightarrow> (month_key \<times> mp_stats) list \<Rightarrow> (month_key \<times> mp_stats) list option" where
  \<comment> \<open>the outer loop over \<open>weekly_stats.items()\<close>\<close>
  "mp_assign [] monthly_stats = Some monthly_stats"
| "mp_assign ((wk, week_data) # rest) monthly_stats =
     (case mp_assign_week week_data monthly_stats of None \<Rightarrow> None
      | Some monthly_stats' \<Rightarrow> mp_assign rest monthly_stats')"

definition mp_monthly_stats :: "contribution list \<Rightarrow> (month_key \<times> mp_stats) list option" where
  "mp_monthly_stats all_contributions = mp_assign (mp_weekly_stats all_contributions) []"

subsection \<open>Per-workday averages\<close>

text \<open>
  An element of \<open>monthly_data\<close>. (The label, the month key printed as \<open>"%b %Y"\<close>, is
  left out.)
\<close>

record mp_month =
  mp_month_key :: month_key
  mp_avg :: rat
  mp_month_total :: int
  mp_month_week_fraction :: rat

definition mp_month_entry :: "int \<Rightarrow> month_key \<times> mp_stats \<Rightarrow> mp_month option" where
  \<comment> \<open>the body of the loop over \<open>sorted_months\<close>\<close>
  "mp_month_entry workdays_per_week = (\<lambda>(mk, stats).
     let total_workdays = mp_week_fraction stats * of_int workdays_per_week in
     do {
       avg_per_workday \<leftarrow>
         (if total_workdays > 0 then truediv (of_int (mp_total stats)) total_workdays
          else Some 0);
       Some \<lparr>mp_month_key = mk, mp_avg = avg_per_workday, mp_month_total = mp_total stats,
             mp_month_week_fraction = mp_week_fraction stats\<rparr>
     })"

definition mp_monthly_data :: "contribution list \<Rightarrow> int \<Rightarrow> mp_month list option" where
  "mp_monthly_data all_contributions workdays_per_week =
     do {
       monthly_stats \<leftarrow> mp_monthly_stats all_contributions;
       mapM (mp_month_entry workdays_per_week) (sort_key fst monthly_stats)
     }"

subsection \<open>Summary statistics and the trend graph\<close>

definition window_size :: nat where
  "window_size = 6"

definition moving_avg :: "rat list \<Rightarrow> rat list option" where
  \<comment> \<open>the loop that fills \<open>moving_avg\<close>; in its second branch \<open>i - window_size + 1\<close> is not
     negative\<close>
  "moving_avg averages =
     mapM (\<lambda>i. if i < window_size - 1
                then truediv (sum_list (pyslice 0 (i + 1) averages)) (of_nat (i + 1))
                else truediv (sum_list (pyslice (i + 1 - window_size) (i + 1) averages))
                       (of_nat window_size))
       [0..<length averages]"

definition trend_line :: "rat list \<Rightarrow> rat list option option" where
  \<comment> \<open>the trend is plotted only \<open>if len(averages) >= window_size\<close>\<close>
  "trend_line averages =
     (if length averages \<ge> window_size then map_option Some (moving_avg averages)
      else Some None)"

definition x_labels_to_show :: "nat \<Rightarrow> bool list option" where
  \<comment> \<open>for each index, whether its label is shown\<close>
  "x_labels_to_show n =
     do {
       q \<leftarrow> floordiv (int n) 20;
       let step = max 1 q;
       mapM (\<lambda>i. do { r \<leftarrow> pymod (int i) step; Some (r = 0) }) [0..<n]
     }"

definition mp_summary_statistics :: "mp_month list \<Rightarrow> (rat \<times> rat) option option" where
  \<comment> \<open>\<open>overall_avg\<close> and \<open>recent_avg\<close>, when there is a month with a positive average\<close>
  "mp_summary_statistics monthly_data =
     (let all_averages = map mp_avg (filter (\<lambda>m. mp_avg m > 0) monthly_data) in
      if all_averages \<noteq> [] then
        do {
          overall_avg \<leftarrow> average all_averages;
          let recent_months =
            (if length monthly_data \<ge> 12 then last_n 12 monthly_data else monthly_data);
          recent_avg \<leftarrow>
            (if recent_months \<noteq> [] then average (map mp_avg recent_months) else Some 0);
          Some (Some (overall_avg, recent_avg))
        }
      else Some None)"

record trend_statistics =
  recent_avg :: rat
  older_avg :: rat
  improvement :: "rat option"
  recent_trend :: "rat option"

definition mp_trend_statistics :: "rat list \<Rightarrow> trend_statistics option" where
  \<comment> \<open>the statistics printed under the graph, from the averages of \<open>active_months\<close>\<close>
  "mp_trend_statistics active =
     do {
       let recent_12 = (if length active \<ge> 12 then last_n 12 active else active);
       recent \<leftarrow> average recent_12;
       let older_months = (if length active > 12 then take (length active - 12) active else []);
       older \<leftarrow> (if older_months \<noteq> [] then average older_months else Some 0);
       improv \<leftarrow>
         (if older > 0 then
            do { q \<leftarrow> truediv (recent - older) older; Some (Some (q * 100)) }
          else Some None);
       trend \<leftarrow>
         (if length active \<ge> 3 then
            do {
              last_3_avg \<leftarrow> truediv (sum_list (last_n 3 active)) 3;
              prev_3_avg \<leftarrow>
                (if length active \<ge> 6
                 then truediv (sum_list (pyslice (length active - 6) (length active - 3) active)) 3
                 else Some 0);
              if prev_3_avg > 0 then
                do { q \<leftarrow> truediv (last_3_avg - prev_3_avg) prev_3_avg; Some (Some (q * 100)) }
              else Some None
            }
          else Some None);
       Some \<lparr>recent_avg = recent, older_avg = older, improvement = improv, recent_trend = trend\<rparr>
     }"

record mp_graph =
  mp_moving_avg :: "rat list option"
  mp_x_labels :: "bool list"
  mp_trend :: trend_statistics

definition mp_visual_graph :: "mp_month list \<Rightarrow> mp_graph option option" where
  "mp_visual_graph monthly_data =
     (let active_months = filter (\<lambda>m. mp_avg m > 0) monthly_data in
      if active_months \<noteq> [] then
        do {
          let averages = map mp_avg active_months;
          trend \<leftarrow> trend_line averages;
          shown \<leftarrow> x_labels_to_show (length active_months);
          stats \<leftarrow> mp_trend_statistics averages;
          Some (Some \<lparr>mp_moving_avg = trend, mp_x_labels = shown, mp_trend = stats\<rparr>)
        }
      else Some None)"

record mp_report =
  mp_data :: "mp_month list"
  mp_summary :: "(rat \<times> rat) option"
  mp_graph :: "mp_graph option"

definition mp_analysis :: "contribution list \<Rightarrow> int \<Rightarrow> mp_report option" where
  \<comment> \<open>everything the script computes from \<open>all_contributions\<close>, up to the export\<close>
  "mp_analysis all_contributions workdays_per_week =
     do {
       monthly_data \<leftarrow> mp_monthly_data all_contributions workdays_per_week;
       summary \<leftarrow> mp_summary_statistics monthly_data;
       graph \<leftarrow> mp_visual_graph monthly_data;
       Some \<lparr>mp_data = monthly_data, mp_summary = summary, mp_graph = graph\<rparr>
     }"

section \<open>monthly\_code\_metrics\_analysis.py\<close>

subsection \<open>Bucketing by ISO week and month\<close>

text \<open>
  A node of the \<open>pullRequests\<close> connection, as the query of this script selects it. The
  week and the month of a pull request are those of the date of \<open>createdAt\<close>.
\<close>

record mc_pr =
  mc_createdAt :: datetime
  mc_additions :: int
  mc_deletions :: int
  mc_isPrivate :: bool

record mc_days =
  mc_count :: int
  mc_days_additions :: int
  mc_days_deletions :: int
  mc_days_total :: int

type_synonym mc_week = "(month_key \<times> mc_days) list"

record mc_stats =
  mc_stats_additions :: int
  mc_stats_deletions :: int
  mc_stats_total :: int
  mc_week_fraction :: rat

definition mc_track :: "mc_pr \<Rightarrow> (week_key \<times> mc_week) list \<Rightarrow> (week_key \<times> mc_week) list" where
  \<comment> \<open>the body of the loop over \<open>all_prs\<close>\<close>
  "mc_track pr weekly_stats =
     (let d = dt_date (mc_createdAt pr);
          total_changes = mc_additions pr + mc_deletions pr
      in setdefault_upd (week_key d) []
           (setdefault_upd (month_key d)
              \<lparr>mc_count = 0, mc_days_additions = 0, mc_days_deletions = 0, mc_days_total = 0\<rparr>
              (\<lambda>m. m\<lparr>mc_count := mc_count m + 1,
                     mc_days_additions := mc_days_additions m + mc_additions pr,
                     mc_days_deletions := mc_days_deletions m + mc_deletions pr,
                     mc_days_total := mc_days_total m + total_changes\<rparr>))
           weekly_stats)"

definition mc_weekly_stats :: "mc_pr list \<Rightarrow> (week_key \<times> mc_week) list" where
  "mc_weekly_stats all_prs = foldl (\<lambda>ws pr. mc_track pr ws) [] all_prs"

definition mc_fraction :: "mc_days \<Rightarrow> rat option" where
  \<comment> \<open>\<^verbatim>\<open>week_fraction = days_in_this_month / 7.0\<close>, where \<open>days_in_this_month\<close> is the
     \<open>count\<close> of the pull requests\<close>
  "mc_fraction month_data = truediv (of_int (mc_count month_data)) 7"

fun mc_assign_week :: "mc_week \<Rightarrow> (month_key \<times> mc_stats) list \<Rightarrow> (month_key \<times> mc_stats) list option" where
  "mc_assign_week [] monthly_stats = Some monthly_stats"
| "mc_assign_week ((mk, month_data) # rest) monthly_stats =
     (case mc_fraction month_data of None \<Rightarrow> None
      | Some week_fraction \<Rightarrow>
          mc_assign_week rest
            (setdefault_upd mk
               \<lparr>mc_stats_additions = 0, mc_stats_deletions = 0, mc_stats_total = 0,
                mc_week_fraction = 0\<rparr>
               (\<lambda>s. s\<lparr>mc_stats_additions := mc_stats_additions s + mc_days_additions month_data,
                      mc_stats_deletions := mc_stats_deletions s + mc_days_deletions month_data,
                      mc_stats_total := mc_stats_total s + mc_days_total month_data,
                      mc_week_fraction := mc_week_fraction s + week_fraction\<rparr>)
               monthly_stats))"

fun mc_assign :: "(week_key \<times> mc_week) list \<Rightarrow> (month_key \<times> mc_stats) list \<Rightarrow> (month_key \<times> mc_stats) list option" where
  "mc_assign [] monthly_stats = Some monthly_stats"
| "mc_assign ((wk, week_data) # rest) monthly_stats =
     (case mc_assign_week week_data monthly_stats of None \<Rightarrow> None
      | Some monthly_stats' \<Rightarrow> mc_assign rest monthly_stats')"

definition mc_monthly_stats :: "mc_pr list \<Rightarrow> (month_key \<times> mc_stats) list option" where
  "mc_monthly_stats all_prs = mc_assign (mc_weekly_stats all_prs) []"

subsection \<open>Per-workday averages\<close>

record mc_month =
  mc_month_key :: month_key
  mc_avg_additions :: rat
  mc_avg_deletions :: rat
  mc_avg_total :: rat
  mc_total_additions :: int
  mc_total_deletions :: int
  mc_total_changes :: int
  mc_month_week_fraction :: rat

definition mc_month_entry :: "int \<Rightarrow> month_key \<times> mc_stats \<Rightarrow> mc_month option" where
  "mc_month_entry workdays_per_week = (\<lambda>(mk, stats).
     let total_workdays = mc_week_fraction stats * of_int workdays_per_week in
     do {
       avg_additions \<leftarrow>
         (if total_workdays > 0 then truediv (of_int (mc_stats_additions stats)) total_workdays
          else Some 0);
       avg_deletions \<leftarrow>
         (if total_workdays > 0 then truediv (of_int (mc_stats_deletions stats)) total_workdays
          else Some 0);
       avg_total \<leftarrow>
         (if total_workdays > 0 then truediv (of_int (mc_stats_total stats)) total_workdays
          else Some 0);
       Some \<lparr>mc_month_key = mk, mc_avg_additions = avg_additions,
             mc_avg_deletions = avg_deletions, mc_avg_total = avg_total,
             mc_total_additions = mc_stats_additions stats,
             mc_total_deletions = mc_stats_deletions stats,
             mc_total_changes = mc_stats_total stats,
             mc_month_week_fraction = mc_week_fraction stats\<rparr>
     })"

definition mc_monthly_data :: "mc_pr list \<Rightarrow> int \<Rightarrow> mc_month list option" where
  "mc_monthly_data all_prs workdays_per_week =
     do {
       monthly_stats \<leftarrow> mc_monthly_stats all_prs;
       mapM (mc_month_entry workdays_per_week) (sort_key fst monthly_stats)
     }"

subsection \<open>Summary statistics and the graphs\<close>

record mc_summary =
  mc_overall_avg_additions :: rat
  mc_overall_avg_deletions :: rat
  mc_overall_avg_total :: rat
  mc_recent_avg_additions :: rat
  mc_recent_avg_deletions :: rat
  mc_recent_avg_total :: rat

definition mc_summary_statistics :: "mc_month list \<Rightarrow> mc_summary option option" where
  "mc_summary_statistics monthly_data =
     (let active_months = filter (\<lambda>m. mc_avg_total m > 0) monthly_data in
      if active_months \<noteq> [] then
        do {
          overall_avg_additions \<leftarrow> average (map mc_avg_additions active_months);
          overall_avg_deletions \<leftarrow> average (map mc_avg_deletions active_months);
          overall_avg_total \<leftarrow> average (map mc_avg_total active_months);
          let recent_months =
            (if length active_months \<ge> 12 then last_n 12 active_months else active_months);
          recent_avg_additions \<leftarrow>
            (if recent_months \<noteq> [] then average (map mc_avg_additions recent_months)
             else Some 0);
          recent_avg_deletions \<leftarrow>
            (if recent_months \<noteq> [] then average (map mc_avg_deletions recent_months)
             else Some 0);
          recent_avg_total \<leftarrow>
            (if recent_months \<noteq> [] then average (map mc_avg_total recent_months)
             else Some 0);
          Some (Some \<lparr>mc_overall_avg_additions = overall_avg_additions,
                      mc_overall_avg_deletions = overall_avg_deletions,
                      mc_overall_avg_total = overall_avg_total,
                      mc_recent_avg_additions = recent_avg_additions,
                      mc_recent_avg_deletions = recent_avg_deletions,
                      mc_recent_avg_total = recent_avg_total\<rparr>)
        }
      else Some None)"

record mc_graphs =
  mc_trend_additions :: "rat list option"
  mc_trend_deletions :: "rat list option"
  mc_trend_totals :: "rat list option"
  mc_x_labels :: "bool list"

definition mc_visual_graphs :: "mc_month list \<Rightarrow> mc_graphs option option" where
  "mc_visual_graphs monthly_data =
     (let active_months = filter (\<lambda>m. mc_avg_total m > 0) monthly_data in
      if active_months \<noteq> [] then
        do {
          let additions = map mc_avg_additions active_months;
          let deletions = map mc_avg_deletions active_months;
          let totals = map mc_avg_total active_months;
          trend_additions \<leftarrow> trend_line additions;
          shown \<leftarrow> x_labels_to_show (length active_months);
          trend_deletions \<leftarrow> trend_line deletions;
          trend_totals \<leftarrow> trend_line totals;
          Some (Some \<lparr>mc_trend_additions = trend_additions,
                      mc_trend_deletions = trend_deletions,
                      mc_trend_totals = trend_totals, mc_x_labels = shown\<rparr>)
        }
      else Some None)"

record mc_report =
  mc_data :: "mc_month list"
  mc_summary :: "mc_summary option"
  mc_graphs :: "mc_graphs option"

definition mc_analysis :: "mc_pr list \<Rightarrow> int \<Rightarrow> mc_report option" where
  \<comment> \<open>everything the script computes from \<open>all_prs\<close>, up to the export\<close>
  "mc_analysis all_prs workdays_per_week =
     do {
       monthly_data \<leftarrow> mc_monthly_data all_prs workdays_per_week;
       summary \<leftarrow> mc_summary_statistics monthly_data;
       graphs \<leftarrow> mc_visual_graphs monthly_data;
       Some \<lparr>mc_data = monthly_data, mc_summary = summary, mc_graphs = graphs\<rparr>
     }"

section \<open>fetch\_commit\_contributions\_2025.py and yearly\_contribution\_summary.py\<close>

text \<open>
  Both scripts aggregate the days of one contribution calendar by weekday with the same
  code. The three \<open>Counter\<close>s are functions from the weekday (Monday is 0; the scripts
  use its name) to a count that is 0 for a missing key.
\<close>

record weekday_counters =
  weekday_counts :: "int \<Rightarrow> int"
  weekday_total_days :: "int \<Rightarrow> int"
  weekday_active_days :: "int \<Rightarrow> int"

definition count_day :: "weekday_counters \<Rightarrow> contribution \<Rightarrow> weekday_counters" where
  \<comment> \<open>the body of the loop over the days of the calendar\<close>
  "count_day cs d =
     (let wd = weekday (c_date d);
          cs1 = cs\<lparr>weekday_counts := (weekday_counts cs)(wd := weekday_counts cs wd + c_count d),
                   weekday_total_days := (weekday_total_days cs)(wd := weekday_total_days cs wd + 1)\<rparr>
      in if c_count d > 0
         then cs1\<lparr>weekday_active_days :=
                    (weekday_active_days cs1)(wd := weekday_active_days cs1 wd + 1)\<rparr>
         else cs1)"

definition aggregate_by_weekday :: "contribution list list \<Rightarrow> weekday_counters" where
  "aggregate_by_weekday weeks =
     foldl count_day
       \<lparr>weekday_counts = (\<lambda>_. 0), weekday_total_days = (\<lambda>_. 0), weekday_active_days = (\<lambda>_. 0)\<rparr>
       (concat weeks)"

record weekday_row =
  wr_contribs :: int
  wr_active_days :: int
  wr_total_days :: int
  wr_avg :: rat

definition weekday_breakdown_row :: "weekday_counters \<Rightarrow> int \<Rightarrow> weekday_row option" where
  \<comment> \<open>the body of the loop over the seven weekday names\<close>
  "weekday_breakdown_row cs wd =
     (let contribs = weekday_counts cs wd;
          total_days = weekday_total_days cs wd;
          active_days = weekday_active_days cs wd
      in do {
        avg \<leftarrow> (if total_days \<noteq> 0 then truediv (of_int contribs) (of_int total_days)
                 else Some 0);
        Some \<lparr>wr_contribs = contribs, wr_active_days = active_days,
              wr_total_days = total_days, wr_avg = avg\<rparr>
      })"

definition weekday_breakdown :: "contribution list list \<Rightarrow> weekday_row list option" where
  "weekday_breakdown weeks =
     mapM (weekday_breakdown_row (aggregate_by_weekday weeks)) [0, 1, 2, 3, 4, 5, 6]"

section \<open>lifetime\_contribution\_analysis.py\<close>

text \<open>An element of \<open>yearly_data\<close>.\<close>

record year_stats =
  ys_year :: int
  ys_total :: int
  ys_commits :: int
  ys_issues :: int
  ys_prs :: int
  ys_reviews :: int
  ys_repos :: int
  ys_restricted :: int

text \<open>What \<open>calc_pct\<close> returns: the strings \<open>"N/A"\<close> and \<open>"+\<infinity>"\<close>, or a formatted percentage.\<close>

datatype pct = NA | PlusInfinity | Percent rat

definition calc_pct :: "int \<Rightarrow> int \<Rightarrow> pct option" where
  "calc_pct curr_val prev_val =
     (if prev_val = 0 then Some (if curr_val = 0 then NA else PlusInfinity)
      else do {
        q \<leftarrow> truediv (of_int (curr_val - prev_val)) (of_int prev_val);
        Some (Percent (q * 100))
      })"

definition pct_change_row :: "year_stats \<times> year_stats \<Rightarrow> pct list option" where
  \<comment> \<open>one row of the percentage table, from \<open>prev\<close> and \<open>curr\<close>\<close>
  "pct_change_row = (\<lambda>(prev, curr).
     do {
       total_pct \<leftarrow> calc_pct (ys_total curr) (ys_total prev);
       commits_pct \<leftarrow> calc_pct (ys_commits curr) (ys_commits prev);
       issues_pct \<leftarrow> calc_pct (ys_issues curr) (ys_issues prev);
       prs_pct \<leftarrow> calc_pct (ys_prs curr) (ys_prs prev);
       reviews_pct \<leftarrow> calc_pct (ys_reviews curr) (ys_reviews prev);
       repos_pct \<leftarrow> calc_pct (ys_repos curr) (ys_repos prev);
       restricted_pct \<leftarrow> calc_pct (ys_restricted curr) (ys_restricted prev);
       Some [total_pct, commits_pct, issues_pct, prs_pct, reviews_pct, repos_pct, restricted_pct]
     })"

definition growth_pct :: "int \<Rightarrow> int \<Rightarrow> rat option" where
  \<comment> \<open>the expression \<open>(change / prev * 100) if prev > 0 else 0\<close>\<close>
  "growth_pct change prev =
     (if prev > 0 then do { q \<leftarrow> truediv (of_int change) (of_int prev); Some (q * 100) }
      else Some 0)"

definition growth_row :: "year_stats \<times> year_stats \<Rightarrow> rat list option" where
  \<comment> \<open>one block of the year-over-year growth, from \<open>prev\<close> and \<open>curr\<close>\<close>
  "growth_row = (\<lambda>(prev, curr).
     do {
       total_pct \<leftarrow> growth_pct (ys_total curr - ys_total prev) (ys_total prev);
       commits_pct \<leftarrow> growth_pct (ys_commits curr - ys_commits prev) (ys_commits prev);
       issues_pct \<leftarrow> growth_pct (ys_issues curr - ys_issues prev) (ys_issues prev);
       prs_pct \<leftarrow> growth_pct (ys_prs curr - ys_prs prev) (ys_prs prev);
       reviews_pct \<leftarrow> growth_pct (ys_reviews curr - ys_reviews prev) (ys_reviews prev);
       Some [total_pct, commits_pct, issues_pct, prs_pct, reviews_pct]
     })"

record lt_report =
  lt_pct_table :: "pct list list"
  lt_growth :: "rat list list"
  lt_avg_per_year :: rat
  lt_overall_pct :: "rat option"

definition lt_analysis :: "year_stats list \<Rightarrow> lt_report option" where
  \<comment> \<open>everything the script computes from \<open>yearly_data\<close>; \<open>zip yearly_data (tl yearly_data)\<close>
     lists \<open>(yearly_data[i-1], yearly_data[i])\<close> for \<open>i\<close> from 1\<close>
  "lt_analysis yearly_data =
     do {
       table \<leftarrow> (if length yearly_data > 1
                  then mapM pct_change_row (zip yearly_data (tl yearly_data)) else Some []);
       growth \<leftarrow> (if length yearly_data > 1
                   then mapM growth_row (zip yearly_data (tl yearly_data)) else Some []);
       let total_all = sum_list (map ys_total yearly_data);
       let years_active = length yearly_data;
       avg_per_year \<leftarrow> (if years_active > 0
                         then truediv (of_int total_all) (of_nat years_active) else Some 0);
       overall \<leftarrow>
         (if yearly_data \<noteq> [] \<and> length yearly_data > 1 then
            map_option Some
              (growth_pct (ys_total (last yearly_data) - ys_total (hd yearly_data))
                 (ys_total (hd yearly_data)))
          else Some None);
       Some \<lparr>lt_pct_table = table, lt_growth = growth, lt_avg_per_year = avg_per_year,
             lt_overall_pct = overall\<rparr>
     }"

section \<open>The scripts as runs\<close>

subsection \<open>Requests, replies and events\<close>

text \<open>
  A run of a script is the list of its events (the HTTP requests it issues, the calls of
  \<open>raise_for_status\<close>, the files it writes) and the way it ends. The server is a list of
  replies, the \<open>i\<close>-th for the \<open>i\<close>-th request; a run that issues a request when the list
  is used up ends as \<open>Waiting\<close>, so the runs over all finite lists are the prefixes of all
  executions. Of a request the model keeps the URL and the \<open>login\<close> variable (the
  query text and the variables \<open>from\<close>, \<open>to\<close> and \<open>after\<close> matter to no claim).
\<close>

datatype event = Post string string | RaiseForStatus | WriteFile string

datatype outcome = Finished | Exit int | Uncaught | Waiting

text \<open>
  A node of the \<open>pullRequests\<close> connection, as the query of the work summary selects it;
  the fields that are only printed (title, URL, \<open>mergedAt\<close>, \<open>closedAt\<close>, the reviews)
  are left out.
\<close>

record ws_pr =
  pr_number :: int
  pr_createdAt :: datetime
  pr_updatedAt :: datetime
  pr_state :: string
  pr_additions :: int
  pr_deletions :: int
  pr_nameWithOwner :: string

text \<open>
  What the body of a reply holds under \<open>data\<close>, by query: the user's \<open>createdAt\<close>; the
  weeks of a contribution calendar; the seven totals of a year (total, commits, issues,
  pull requests, reviews, repositories, restricted); a page of pull requests with
  \<open>hasNextPage\<close>.
\<close>

datatype payload =
    UserInfo datetime
  | Calendar "contribution list list"
  | YearTotals int int int int int int int
  | CodePullRequests "mc_pr list" bool
  | PullRequests "ws_pr list" bool

text \<open>
  A reply: \<open>requests.post\<close> raises (no response); \<open>raise_for_status\<close> raises (an error
  status); \<open>resp.json()\<close> raises or the body lacks a key the script subscripts; the body
  has the key \<open>errors\<close>; or the body has the data.
\<close>

datatype reply = ConnectionError | HttpError | Invalid | Errors | Data payload

datatype fetched = NoReply | Raised | ApiErrors | Body payload

definition graphql_post :: "string \<Rightarrow> string \<Rightarrow> reply option \<Rightarrow> event list \<times> fetched" where
  \<comment> \<open>the statements \<open>resp = requests.post(url, ...)\<close>, \<open>resp.raise_for_status()\<close>,
     \<open>data = resp.json()\<close> and the test \<open>"errors" in data\<close>, which every request of every
     script goes through in this order\<close>
  "graphql_post url login r =
     (case r of
        None \<Rightarrow> ([Post url login], NoReply)
      | Some ConnectionError \<Rightarrow> ([Post url login], Raised)
      | Some HttpError \<Rightarrow> ([Post url login, RaiseForStatus], Raised)
      | Some Invalid \<Rightarrow> ([Post url login, RaiseForStatus], Raised)
      | Some Errors \<Rightarrow> ([Post url login, RaiseForStatus], ApiErrors)
      | Some (Data p) \<Rightarrow> ([Post url login, RaiseForStatus], Body p))"

definition next_reply :: "reply list \<Rightarrow> reply option" where
  "next_reply replies = (case replies of [] \<Rightarrow> None | r # _ \<Rightarrow> Some r)"

type_synonym run = "event list \<times> outcome"

definition after :: "event list \<Rightarrow> run \<Rightarrow> run" where
  \<comment> \<open>the run that goes on from the events so far\<close>
  "after events r = (events @ fst r, snd r)"

subsection \<open>Arguments and environment\<close>

text \<open>
  The environment of a run: the variable \<open>GITHUB_TOKEN\<close> and the clock
  (\<open>datetime.now()\<close>; the scripts read the current year from it, the work summary the
  current time). The arguments every script but the lifetime analysis parses are
  \<open>--user\<close> (required) and \<open>--token\<close>.
\<close>

record env =
  GITHUB_TOKEN :: "string option"
  now :: datetime

record args =
  user :: string
  token :: "string option"

definition truthy :: "string option \<Rightarrow> bool" where
  \<comment> \<open>\<open>None\<close> and the empty string are false\<close>
  "truthy s = (case s of None \<Rightarrow> False | Some t \<Rightarrow> t \<noteq> [])"

definition get_token :: "string option \<Rightarrow> env \<Rightarrow> string option" where
  \<comment> \<open>\<^verbatim>\<open>TOKEN = args.token if args.token else os.environ.get("GITHUB_TOKEN")\<close>\<close>
  "get_token tok e = (if truthy tok then tok else GITHUB_TOKEN e)"

definition current_year :: "env \<Rightarrow> int" where
  "current_year e = year (dt_date (now e))"

subsection \<open>fetch\_commit\_contributions\_2025.py\<close>

definition fc_main :: "args \<Rightarrow> env \<Rightarrow> reply list \<Rightarrow> run" where
  "fc_main a e replies =
     (if \<not> truthy (get_token (token a) e) then ([], Exit 1)
      else case graphql_post ''https://api.github.com/graphql'' (user a) (next_reply replies) of
          (ev, NoReply) \<Rightarrow> (ev, Waiting)
        | (ev, Raised) \<Rightarrow> (ev, Uncaught)
        | (ev, ApiErrors) \<Rightarrow> (ev, Exit 1)
        | (ev, Body (Calendar weeks)) \<Rightarrow>
            (case weekday_breakdown weeks of None \<Rightarrow> (ev, Uncaught) | Some _ \<Rightarrow> (ev, Finished))
        | (ev, Body _) \<Rightarrow> (ev, Uncaught))"

subsection \<open>yearly\_contribution\_summary.py\<close>

record ys_args = args +
  year_arg :: "int option"
  all_years :: bool

definition fetch_and_display_contributions :: "string \<Rightarrow> reply option \<Rightarrow> event list \<times> outcome option" where
  \<comment> \<open>\<open>None\<close>: the function returns; otherwise the way the script ends in it\<close>
  "fetch_and_display_contributions username r =
     (case graphql_post ''https://api.github.com/graphql'' username r of
          (ev, NoReply) \<Rightarrow> (ev, Some Waiting)
        | (ev, Raised) \<Rightarrow> (ev, Some Uncaught)
        | (ev, ApiErrors) \<Rightarrow> (ev, Some (Exit 1))
        | (ev, Body (Calendar weeks)) \<Rightarrow>
            (case weekday_breakdown weeks of None \<Rightarrow> (ev, Some Uncaught) | Some _ \<Rightarrow> (ev, None))
        | (ev, Body _) \<Rightarrow> (ev, Some Uncaught))"

fun ys_years :: "string \<Rightarrow> int list \<Rightarrow> reply list \<Rightarrow> run" where
  \<comment> \<open>the loop over \<open>years_to_process\<close>\<close>
  "ys_years username [] replies = ([], Finished)"
| "ys_years username (y # years) replies =
     (case fetch_and_display_contributions username (next_reply replies) of
        (ev, Some out) \<Rightarrow> (ev, out)
      | (ev, None) \<Rightarrow> after ev (ys_years username years (tl replies)))"

definition get_account_creation_year :: "string \<Rightarrow> reply option \<Rightarrow> event list \<times> (outcome + int)" where
  "get_account_creation_year username r =
     (case graphql_post ''https://api.github.com/graphql'' username r of
          (ev, NoReply) \<Rightarrow> (ev, Inl Waiting)
        | (ev, Raised) \<Rightarrow> (ev, Inl Uncaught)
        | (ev, ApiErrors) \<Rightarrow> (ev, Inl (Exit 1))
        | (ev, Body (UserInfo created_at)) \<Rightarrow> (ev, Inr (year (dt_date created_at)))
        | (ev, Body _) \<Rightarrow> (ev, Inl Uncaught))"

definition ys_main :: "ys_args \<Rightarrow> env \<Rightarrow> reply list \<Rightarrow> run" where
  "ys_main a e replies =
     (if \<not> truthy (get_token (token a) e) then ([], Exit 1)
      else if all_years a \<and> year_arg a \<noteq> None \<and> year_arg a \<noteq> Some 0 then ([], Exit 1)
      else if all_years a then
        (case get_account_creation_year (user a) (next_reply replies) of
           (ev, Inl out) \<Rightarrow> (ev, out)
         | (ev, Inr creation_year) \<Rightarrow>
             after ev (ys_years (user a) [creation_year..current_year e] (tl replies)))
      else
        ys_years (user a)
          [case year_arg a of None \<Rightarrow> current_year e
           | Some y \<Rightarrow> if y \<noteq> 0 then y else current_year e]
          replies)"

subsection \<open>lifetime\_contribution\_analysis.py\<close>

fun lt_years :: "int list \<Rightarrow> reply list \<Rightarrow> year_stats list \<Rightarrow> event list \<times> (outcome + year_stats list)" where
  \<comment> \<open>the loop that collects \<open>yearly_data\<close>; a reply with \<open>errors\<close> skips the year\<close>
  "lt_years [] replies yearly_data = ([], Inr yearly_data)"
| "lt_years (y # years) replies yearly_data =
     (case graphql_post ''https://api.github.com/graphql'' ''joelbrostrom'' (next_reply replies) of
          (ev, NoReply) \<Rightarrow> (ev, Inl Waiting)
        | (ev, Raised) \<Rightarrow> (ev, Inl Uncaught)
        | (ev, ApiErrors) \<Rightarrow>
            (case lt_years years (tl replies) yearly_data of (ev', res) \<Rightarrow> (ev @ ev', res))
        | (ev, Body (YearTotals t c i p r rp rs)) \<Rightarrow>
            (case lt_years years (tl replies)
                    (yearly_data @ [\<lparr>ys_year = y, ys_total = t, ys_commits = c, ys_issues = i,
                                      ys_prs = p, ys_reviews = r, ys_repos = rp,
                                      ys_restricted = rs\<rparr>])
             of (ev', res) \<Rightarrow> (ev @ ev', res))
        | (ev, Body _) \<Rightarrow> (ev, Inl Uncaught))"

definition lt_main :: "string list \<Rightarrow> env \<Rightarrow> reply list \<Rightarrow> run" where
  \<comment> \<open>the script reads no argument: \<open>argv\<close> is not used. \<open>os.environ["GITHUB_TOKEN"]\<close>
     raises when the variable is not set\<close>
  "lt_main argv e replies =
     (case GITHUB_TOKEN e of
        None \<Rightarrow> ([], Uncaught)
      | Some TOKEN \<Rightarrow>
          (case graphql_post ''https://api.github.com/graphql'' ''joelbrostrom'' (next_reply replies) of
               (ev, NoReply) \<Rightarrow> (ev, Waiting)
             | (ev, Raised) \<Rightarrow> (ev, Uncaught)
             | (ev, ApiErrors) \<Rightarrow> (ev, Exit 1)
             | (ev, Body (UserInfo account_created)) \<Rightarrow>
                 (case lt_years [year (dt_date account_created)..current_year e] (tl replies) [] of
                    (ev', Inl out) \<Rightarrow> (ev @ ev', out)
                  | (ev', Inr yearly_data) \<Rightarrow>
                      (case lt_analysis yearly_data of
                         None \<Rightarrow> (ev @ ev', Uncaught)
                       | Some _ \<Rightarrow> (ev @ ev', Finished)))
             | (ev, Body _) \<Rightarrow> (ev, Uncaught)))"

subsection \<open>monthly\_productivity\_analysis.py\<close>

record mp_args = args +
  detailed :: bool
  workdays_per_week_arg :: int

fun mp_years :: "string \<Rightarrow> int list \<Rightarrow> reply list \<Rightarrow> contribution list \<Rightarrow> event list \<times> (outcome + contribution list)" where
  \<comment> \<open>the loop that collects \<open>all_contributions\<close>; a reply with \<open>errors\<close> skips the year\<close>
  "mp_years username [] replies all_contributions = ([], Inr all_contributions)"
| "mp_years username (y # years) replies all_contributions =
     (case graphql_post ''https://api.github.com/graphql'' username (next_reply replies) of
          (ev, NoReply) \<Rightarrow> (ev, Inl Waiting)
        | (ev, Raised) \<Rightarrow> (ev, Inl Uncaught)
        | (ev, ApiErrors) \<Rightarrow>
            (case mp_years username years (tl replies) all_contributions of
               (ev', res) \<Rightarrow> (ev @ ev', res))
        | (ev, Body (Calendar weeks)) \<Rightarrow>
            (case mp_years username years (tl replies) (all_contributions @ concat weeks) of
               (ev', res) \<Rightarrow> (ev @ ev', res))
        | (ev, Body _) \<Rightarrow> (ev, Inl Uncaught))"

definition mp_main :: "mp_args \<Rightarrow> env \<Rightarrow> reply list \<Rightarrow> run" where
  "mp_main a e replies =
     (if \<not> truthy (get_token (token a) e) then ([], Exit 1)
      else case graphql_post ''https://api.github.com/graphql'' (user a) (next_reply replies) of
          (ev, NoReply) \<Rightarrow> (ev, Waiting)
        | (ev, Raised) \<Rightarrow> (ev, Uncaught)
        | (ev, ApiErrors) \<Rightarrow> (ev, Exit 1)
        | (ev, Body (UserInfo account_created)) \<Rightarrow>
            (case mp_years (user a) [year (dt_date account_created)..current_year e]
                    (tl replies) [] of
               (ev', Inl out) \<Rightarrow> (ev @ ev', out)
             | (ev', Inr all_contributions) \<Rightarrow>
                 (case mp_analysis all_contributions (workdays_per_week_arg a) of
                    None \<Rightarrow> (ev @ ev', Uncaught)
                  | Some _ \<Rightarrow>
                      (ev @ ev' @ [WriteFile ''monthly_productivity_data.json''], Finished)))
        | (ev, Body _) \<Rightarrow> (ev, Uncaught))"

subsection \<open>monthly\_code\_metrics\_analysis.py\<close>

fun mc_fetch_prs :: "string \<Rightarrow> reply list \<Rightarrow> mc_pr list \<Rightarrow> event list \<times> (outcome + mc_pr list)" where
  \<comment> \<open>the loop \<open>while has_next\<close>, entered with \<open>has_next\<close> true; its body is in a \<open>try\<close>
     whose handler prints the exception and leaves the loop\<close>
  "mc_fetch_prs username [] all_prs =
     (fst (graphql_post ''https://api.github.com/graphql'' username None), Inl Waiting)"
| "mc_fetch_prs username (r # replies) all_prs =
     (case graphql_post ''https://api.github.com/graphql'' username (Some r) of
          (ev, NoReply) \<Rightarrow> (ev, Inl Waiting)
        | (ev, Raised) \<Rightarrow> (ev, Inr all_prs)
        | (ev, ApiErrors) \<Rightarrow> (ev, Inr all_prs)
        | (ev, Body (CodePullRequests prs has_next)) \<Rightarrow>
            (if has_next then
               (case mc_fetch_prs username replies (all_prs @ prs) of
                  (ev', res) \<Rightarrow> (ev @ ev', res))
             else (ev, Inr (all_prs @ prs)))
        | (ev, Body _) \<Rightarrow> (ev, Inr all_prs))"

definition mc_main :: "mp_args \<Rightarrow> env \<Rightarrow> reply list \<Rightarrow> run" where
  "mc_main a e replies =
     (if \<not> truthy (get_token (token a) e) then ([], Exit 1)
      else case graphql_post ''https://api.github.com/graphql'' (user a) (next_reply replies) of
          (ev, NoReply) \<Rightarrow> (ev, Waiting)
        | (ev, Raised) \<Rightarrow> (ev, Uncaught)
        | (ev, ApiErrors) \<Rightarrow> (ev, Exit 1)
        | (ev, Body (UserInfo account_created)) \<Rightarrow>
            (case mc_fetch_prs (user a) (tl replies) [] of
               (ev', Inl out) \<Rightarrow> (ev @ ev', out)
             | (ev', Inr all_prs) \<Rightarrow>
                 if all_prs = [] then (ev @ ev', Exit 1)
                 else
                   (case mc_analysis all_prs (workdays_per_week_arg a) of
                      None \<Rightarrow> (ev @ ev', Uncaught)
                    | Some _ \<Rightarrow>
                        (ev @ ev' @ [WriteFile ''monthly_code_metrics_data.json''], Finished)))
        | (ev, Body _) \<Rightarrow> (ev, Uncaught))"

subsection \<open>work\_summary.py\<close>

datatype period =
  Today | Yesterday | LastWeek | LastMonth | ThisWeek | ThisMonth | LastYear | Custom

text \<open>
  The value of \<open>--start\<close> or \<open>--end\<close>: not given (or empty), a string that
  \<open>strptime(..., "%Y-%m-%d")\<close> refuses, or a date. One of the eight period options is
  required. The options \<open>--format\<close>, \<open>--group-by\<close> and \<open>--include-stats\<close> only shape
  the printed text and are left out.
\<close>

datatype date_arg = Absent | Malformed | Ymd date

record ws_args = args +
  period :: period
  start_arg :: date_arg
  end_arg :: date_arg
  export :: "string option"

definition timedelta_days :: "int \<Rightarrow> int" where
  \<comment> \<open>\<open>timedelta(days=n)\<close> in microseconds\<close>
  "timedelta_days n = n * 86400000000"

definition ws_date_range :: "ws_args \<Rightarrow> datetime \<Rightarrow> (int \<times> int) option" where
  \<comment> \<open>\<open>start_date\<close> and \<open>end_date\<close> as instants; \<open>None\<close> where the script exits with 1\<close>
  "ws_date_range a now_utc =
     (let now_i = instant now_utc;
          today_start = instant (now_utc\<lparr>dt_micro := 0\<rparr>)
      in case period a of
           Today \<Rightarrow> Some (today_start, now_i)
         | Yesterday \<Rightarrow> Some (today_start - timedelta_days 1, today_start)
         | LastWeek \<Rightarrow> Some (now_i - timedelta_days 7, now_i)
         | LastMonth \<Rightarrow> Some (now_i - timedelta_days 30, now_i)
         | ThisWeek \<Rightarrow> Some (today_start - timedelta_days (weekday (dt_date now_utc)), now_i)
         | ThisMonth \<Rightarrow>
             Some (instant \<lparr>dt_date = (dt_date now_utc)\<lparr>day := 1\<rparr>, dt_micro = 0\<rparr>, now_i)
         | LastYear \<Rightarrow> Some (now_i - timedelta_days 365, now_i)
         | Custom \<Rightarrow>
             (case (start_arg a, end_arg a) of
                (Ymd s, Ymd e) \<Rightarrow>
                  Some (instant \<lparr>dt_date = s, dt_micro = 0\<rparr>,
                        instant \<lparr>dt_date = e, dt_micro = 86399000000\<rparr>)
              | _ \<Rightarrow> None))"

definition in_period :: "int \<Rightarrow> int \<Rightarrow> ws_pr \<Rightarrow> bool" where
  \<comment> \<open>the test of the filter\<close>
  "in_period start_date end_date pr =
     (let created_at = instant (pr_createdAt pr); updated_at = instant (pr_updatedAt pr)
      in (start_date \<le> created_at \<and> created_at \<le> end_date)
         \<or> (start_date \<le> updated_at \<and> updated_at \<le> end_date))"

fun ws_filter :: "int \<Rightarrow> int \<Rightarrow> ws_pr list \<Rightarrow> ws_pr list \<Rightarrow> ws_pr list \<times> bool" where
  \<comment> \<open>the loop over the nodes of a page; the result is \<open>all_prs\<close> and \<open>has_next\<close>, which
     the loop sets to false when it meets a pull request created and updated before
     \<open>start_date\<close>\<close>
  "ws_filter start_date end_date [] all_prs = (all_prs, True)"
| "ws_filter start_date end_date (pr # prs) all_prs =
     (let all_prs' = (if in_period start_date end_date pr then all_prs @ [pr] else all_prs)
      in if instant (pr_createdAt pr) < start_date \<and> instant (pr_updatedAt pr) < start_date
         then (all_prs', False)
         else ws_filter start_date end_date prs all_prs')"

fun ws_fetch_prs :: "string \<Rightarrow> int \<Rightarrow> int \<Rightarrow> reply list \<Rightarrow> ws_pr list \<Rightarrow> event list \<times> ws_pr list \<times> bool" where
  \<comment> \<open>the loop \<open>while has_next\<close>, entered with \<open>has_next\<close> true; its body is in a \<open>try\<close>
     whose handler prints the exception and leaves the loop. The result is the events,
     \<open>all_prs\<close>, and whether the loop has ended (it has not while a request waits for its
     reply)\<close>
  "ws_fetch_prs username start_date end_date [] all_prs =
     (fst (graphql_post ''https://api.github.com/graphql'' username None), all_prs, False)"
| "ws_fetch_prs username start_date end_date (r # replies) all_prs =
     (case graphql_post ''https://api.github.com/graphql'' username (Some r) of
          (ev, NoReply) \<Rightarrow> (ev, all_prs, False)
        | (ev, Raised) \<Rightarrow> (ev, all_prs, True)
        | (ev, ApiErrors) \<Rightarrow> (ev, all_prs, True)
        | (ev, Body (PullRequests prs has_next_page)) \<Rightarrow>
            (case ws_filter start_date end_date prs all_prs of
               (all_prs', has_next) \<Rightarrow>
                 if \<not> has_next then (ev, all_prs', True)
                 else if has_next_page then
                   (case ws_fetch_prs username start_date end_date replies all_prs' of
                      (ev', res) \<Rightarrow> (ev @ ev', res))
                 else (ev, all_prs', True))
        | (ev, Body _) \<Rightarrow> (ev, all_prs, True))"

definition ws_main :: "ws_args \<Rightarrow> env \<Rightarrow> reply list \<Rightarrow> run" where
  "ws_main a e replies =
     (if \<not> truthy (get_token (token a) e) then ([], Exit 1)
      else case ws_date_range a (now e) of
          None \<Rightarrow> ([], Exit 1)
        | Some (start_date, end_date) \<Rightarrow>
            (case ws_fetch_prs (user a) start_date end_date replies [] of
               (ev, all_prs, ended) \<Rightarrow>
                 if \<not> ended then (ev, Waiting)
                 else if all_prs = [] then (ev, Exit 0)
                 else
                   (case export a of
                      None \<Rightarrow> (ev, Finished)
                    | Some path \<Rightarrow>
                        if path \<noteq> [] then (ev @ [WriteFile path], Finished)
                        else (ev, Finished))))"

subsection \<open>The six scripts\<close>

datatype script =
    FetchCommitContributions args
  | YearlyContributionSummary ys_args
  | LifetimeContributionAnalysis "string list"
  | MonthlyProductivityAnalysis mp_args
  | MonthlyCodeMetricsAnalysis mp_args
  | WorkSummary ws_args

fun run :: "script \<Rightarrow> env \<Rightarrow> reply list \<Rightarrow> run" where
  "run (FetchCommitContributions a) e replies = fc_main a e replies"
| "run (YearlyContributionSummary a) e replies = ys_main a e replies"
| "run (LifetimeContributionAnalysis argv) e replies = lt_main argv e replies"
| "run (MonthlyProductivityAnalysis a) e replies = mp_main a e replies"
| "run (MonthlyCodeMetricsAnalysis a) e replies = mc_main a e replies"
| "run (WorkSummary a) e replies = ws_main a e replies"

section \<open>Auxiliary notions of the proofs\<close>

text \<open>
  The entry of \<open>weekly_stats\<close> for a week and a month, with the factory's default for a
  missing key; and the well-formedness of \<open>weekly_stats\<close> as a dictionary of dictionaries.
\<close>

definition days_of :: "(week_key \<times> mp_week) list \<Rightarrow> week_key \<Rightarrow> month_key \<Rightarrow> mp_days" where
  "days_of ws wk mk =
     (case map_of ws wk of None \<Rightarrow> \<lparr>mp_count = 0, mp_contributions = 0\<rparr>
      | Some wd \<Rightarrow> (case map_of wd mk of None \<Rightarrow> \<lparr>mp_count = 0, mp_contributions = 0\<rparr>
          | Some md \<Rightarrow> md))"

definition keys_distinct :: "(week_key \<times> mp_week) list \<Rightarrow> bool" where
  "keys_distinct ws = (distinct (map fst ws) \<and> list_all (\<lambda>(wk, wd). distinct (map fst wd)) ws)"

text \<open>
  The average per workday as a formula of the month's accumulated week fraction, the
  workdays per week and an accumulated total: the quotient where the number of workdays
  is positive, and 0 elsewhere.
\<close>

definition per_workday :: "rat \<Rightarrow> int \<Rightarrow> int \<Rightarrow> rat" where
  "per_workday week_fraction workdays_per_week accumulated =
     (if week_fraction * of_int workdays_per_week > 0
      then of_int accumulated / (week_fraction * of_int workdays_per_week) else 0)"

text \<open>
  The moving average as the claim words it: \<open>mean_of_last n xs\<close> is the arithmetic mean
  of the last \<open>n\<close> elements of \<open>xs\<close>, and \<open>trend\<close> is the six-month trend of \<open>xs\<close> when
  it is as long as \<open>xs\<close> and its element at index \<open>i\<close> is the mean of the last
  \<open>min (i + 1) 6\<close> elements of \<open>xs\<close> up to index \<open>i\<close>.
\<close>

definition mean_of_last :: "nat \<Rightarrow> rat list \<Rightarrow> rat" where
  "mean_of_last n xs = sum_list (drop (length xs - n) xs) / of_nat n"

definition six_month_trend :: "rat list \<Rightarrow> rat list \<Rightarrow> bool" where
  "six_month_trend xs trend =
     (length trend = length xs
      \<and> (\<forall>i<length xs. trend ! i = mean_of_last (min (i + 1) 6) (take (i + 1) xs)))"

text \<open>
  Notions for the runs. The endpoint. \<open>paired url login events\<close>: the events are requests
  to \<open>url\<close> for \<open>login\<close>, each followed at once by one \<open>raise_for_status\<close>, but for
  the last request, which may have got no response; after the requests come only file
  writes. The account a script analyses. The number of requests among the events; a
  failed reply (no response, or an error status); the number of replies before the first
  failed one. The files written; the files a script exports, by its outcome; and the
  scripts whose pagination loop sits in a \<open>try\<close>. The pull requests of a page of either
  pagination loop (none for a reply that is no page), and the pull requests of some pages
  that the period filter of the work summary keeps, page by page, from those kept before.
\<close>

definition api :: string where
  "api = ''https://api.github.com/graphql''"

fun only_writes :: "event list \<Rightarrow> bool" where
  "only_writes [] = True"
| "only_writes (WriteFile f # es) = only_writes es"
| "only_writes (_ # es) = False"

fun paired :: "string \<Rightarrow> string \<Rightarrow> event list \<Rightarrow> bool" where
  "paired url login [] = True"
| "paired url login (Post url' login' # RaiseForStatus # es) =
     (url' = url \<and> login' = login \<and> paired url login es)"
| "paired url login (Post url' login' # es) = (url' = url \<and> login' = login \<and> only_writes es)"
| "paired url login (WriteFile f # es) = only_writes es"
| "paired url login (RaiseForStatus # es) = False"

fun account :: "script \<Rightarrow> string" where
  "account (FetchCommitContributions a) = user a"
| "account (YearlyContributionSummary a) = user a"
| "account (LifetimeContributionAnalysis argv) = ''joelbrostrom''"
| "account (MonthlyProductivityAnalysis a) = user a"
| "account (MonthlyCodeMetricsAnalysis a) = user a"
| "account (WorkSummary a) = user a"

fun is_post :: "event \<Rightarrow> bool" where
  "is_post (Post url login) = True"
| "is_post _ = False"

definition posts :: "event list \<Rightarrow> nat" where
  "posts es = length (filter is_post es)"

definition failed :: "reply \<Rightarrow> bool" where
  "failed r = (r = ConnectionError \<or> r = HttpError)"

definition answered :: "reply list \<Rightarrow> nat" where
  "answered replies = length (takeWhile (\<lambda>r. \<not> failed r) replies)"

fun written :: "event list \<Rightarrow> string list" where
  "written [] = []"
| "written (WriteFile f # es) = f # written es"
| "written (_ # es) = written es"

fun exported :: "script \<Rightarrow> outcome \<Rightarrow> string list" where
  "exported (MonthlyProductivityAnalysis a) out =
     (if out = Finished then [''monthly_productivity_data.json''] else [])"
| "exported (MonthlyCodeMetricsAnalysis a) out =
     (if out = Finished then [''monthly_code_metrics_data.json''] else [])"
| "exported (WorkSummary a) out =
     (case export a of
        None \<Rightarrow> []
      | Some path \<Rightarrow> if out = Finished \<and> path \<noteq> [] then [path] else [])"
| "exported _ out = []"

fun catches :: "script \<Rightarrow> bool" where
  "catches (MonthlyCodeMetricsAnalysis a) = True"
| "catches (WorkSummary a) = True"
| "catches _ = False"

fun mc_nodes :: "reply \<Rightarrow> mc_pr list" where
  "mc_nodes (Data (CodePullRequests prs has_next)) = prs"
| "mc_nodes _ = []"

fun ws_nodes :: "reply \<Rightarrow> ws_pr list" where
  "ws_nodes (Data (PullRequests prs has_next_page)) = prs"
| "ws_nodes _ = []"

definition ws_kept :: "int \<Rightarrow> int \<Rightarrow> reply list \<Rightarrow> ws_pr list \<Rightarrow> ws_pr list" where
  "ws_kept start_date end_date pages all_prs =
     foldl (\<lambda>kept r. fst (ws_filter start_date end_date (ws_nodes r) kept)) all_prs pages"

section \<open>Example inputs\<close>

text \<open>
  The fetched days of ISO week 5 of 2025, Monday 27 January to Sunday 2 February; and
  seven months of each monthly analysis, all active.
\<close>

definition week_5_of_2025 :: "contribution list" where
  "week_5_of_2025 =
     [\<lparr>c_date = \<lparr>year = 2025, month = 1, day = 27\<rparr>, c_count = 3\<rparr>,
      \<lparr>c_date = \<lparr>year = 2025, month = 1, day = 28\<rparr>, c_count = 0\<rparr>,
      \<lparr>c_date = \<lparr>year = 2025, month = 1, day = 29\<rparr>, c_count = 2\<rparr>,
      \<lparr>c_date = \<lparr>year = 2025, month = 1, day = 30\<rparr>, c_count = 5\<rparr>,
      \<lparr>c_date = \<lparr>year = 2025, month = 1, day = 31\<rparr>, c_count = 1\<rparr>,
      \<lparr>c_date = \<lparr>year = 2025, month = 2, day = 1\<rparr>, c_count = 0\<rparr>,
      \<lparr>c_date = \<lparr>year = 2025, month = 2, day = 2\<rparr>, c_count = 4\<rparr>]"

definition seven_months :: "mp_month list" where
  "seven_months =
     map (\<lambda>k. \<lparr>mp_month_key = (2025, k), mp_avg = of_int k, mp_month_total = 5 * k,
                mp_month_week_fraction = 1\<rparr>) [1, 2, 3, 4, 5, 6, 7]"

definition seven_code_months :: "mc_month list" where
  "seven_code_months =
     map (\<lambda>k. \<lparr>mc_month_key = (2025, k), mc_avg_additions = of_int k,
                mc_avg_deletions = 2 * of_int k, mc_avg_total = 3 * of_int k,
                mc_total_additions = 5 * k, mc_total_deletions = 10 * k,
                mc_total_changes = 15 * k, mc_month_week_fraction = 1\<rparr>)
       [1, 2, 3, 4, 5, 6, 7]"

text \<open>
  An environment with a token, on 15 June 2025 at noon; a timestamp at midnight; a merged
  pull request, as the work summary and as the code metrics analysis fetch it; and three
  invocations for the user \<open>octocat\<close>, the work summary of the last 30 days with
  \<open>--export summary.json\<close> and the two monthly analyses.
\<close>

definition env_2025 :: env where
  "env_2025 = \<lparr>GITHUB_TOKEN = Some ''ghp_example'',
                now = \<lparr>dt_date = \<lparr>year = 2025, month = 6, day = 15\<rparr>,
                        dt_micro = 43200000000\<rparr>\<rparr>"

definition at_midnight :: "int \<Rightarrow> int \<Rightarrow> int \<Rightarrow> datetime" where
  "at_midnight y m d = \<lparr>dt_date = \<lparr>year = y, month = m, day = d\<rparr>, dt_micro = 0\<rparr>"

definition pr_of :: "int \<Rightarrow> datetime \<Rightarrow> datetime \<Rightarrow> ws_pr" where
  "pr_of n created updated =
     \<lparr>pr_number = n, pr_createdAt = created, pr_updatedAt = updated, pr_state = ''MERGED'',
      pr_additions = 10, pr_deletions = 2, pr_nameWithOwner = ''octocat/hello''\<rparr>"

definition code_pr_of :: "datetime \<Rightarrow> mc_pr" where
  "code_pr_of created =
     \<lparr>mc_createdAt = created, mc_additions = 10, mc_deletions = 2, mc_isPrivate = False\<rparr>"

definition summary_with_export :: script where
  "summary_with_export =
     WorkSummary \<lparr>user = ''octocat'', token = None, period = LastMonth, start_arg = Absent,
                  end_arg = Absent, export = Some ''summary.json''\<rparr>"

definition productivity_of_octocat :: script where
  "productivity_of_octocat =
     MonthlyProductivityAnalysis
       \<lparr>user = ''octocat'', token = None, detailed = False, workdays_per_week_arg = 5\<rparr>"

definition code_metrics_of_octocat :: script where
  "code_metrics_of_octocat =
     MonthlyCodeMetricsAnalysis
       \<lparr>user = ''octocat'', token = None, detailed = False, workdays_per_week_arg = 5\<rparr>"

section \<open>Conservation of the contribution total\<close>

lemma mapM_Some:
  "(\<And>x. x \<in> set xs \<Longrightarrow> f x = Some (g x)) \<Longrightarrow> mapM f xs = Some (map g xs)"
  by (induction xs) simp_all

lemma mapM_total:
  "(\<And>x. x \<in> set xs \<Longrightarrow> \<exists>y. f x = Some y) \<Longrightarrow> \<exists>ys. mapM f xs = Some ys"
proof (induction xs)
  case Nil
  show ?case by simp
next
  case (Cons x xs)
  then obtain y ys where "f x = Some y" "mapM f xs = Some ys" by (meson list.set_intros)
  then show ?case by simp
qed

lemma truediv_Some [simp]: "b \<noteq> 0 \<Longrightarrow> truediv a b = Some (a / b)"
  by (simp add: truediv_def)

lemma truediv_pos [simp]: "0 < b \<Longrightarrow> truediv a b = Some (a / b)"
  by (simp add: truediv_def)

lemma setdefault_upd_sum:
  fixes g :: "'v \<Rightarrow> int"
  assumes "g d = 0" and "\<And>v. g (f v) = g v + n"
  shows "sum_list (map (\<lambda>(k, v). g v) (setdefault_upd k d f kvs))
           = sum_list (map (\<lambda>(k, v). g v) kvs) + n"
  using assms by (induction kvs) auto

definition week_contributions :: "mp_week \<Rightarrow> int" where
  "week_contributions week_data = sum_list (map (\<lambda>(k, m). mp_contributions m) week_data)"

lemma mp_track_sum:
  "sum_list (map (\<lambda>(k, w). week_contributions w) (mp_track c ws))
     = sum_list (map (\<lambda>(k, w). week_contributions w) ws) + c_count c"
  unfolding mp_track_def
proof (rule setdefault_upd_sum)
  show "week_contributions [] = 0" by (simp add: week_contributions_def)
next
  fix v :: mp_week
  show "week_contributions
          (setdefault_upd (month_key (c_date c)) \<lparr>mp_count = 0, mp_contributions = 0\<rparr>
             (\<lambda>m. m\<lparr>mp_count := mp_count m + 1,
                    mp_contributions := mp_contributions m + c_count c\<rparr>) v)
        = week_contributions v + c_count c"
    unfolding week_contributions_def by (rule setdefault_upd_sum) simp_all
qed

lemma mp_weekly_stats_sum_aux:
  "sum_list (map (\<lambda>(k, w). week_contributions w) (foldl (\<lambda>ws c. mp_track c ws) ws0 cs))
     = sum_list (map (\<lambda>(k, w). week_contributions w) ws0) + sum_list (map c_count cs)"
  by (induction cs arbitrary: ws0) (simp_all add: mp_track_sum)

lemma mp_weekly_stats_sum:
  "sum_list (map (\<lambda>(k, w). week_contributions w) (mp_weekly_stats cs)) = sum_list (map c_count cs)"
  by (simp add: mp_weekly_stats_def mp_weekly_stats_sum_aux)

lemma mp_assign_week_sum:
  "\<exists>ms'. mp_assign_week week_data ms = Some ms'
     \<and> sum_list (map (\<lambda>(k, s). mp_total s) ms')
         = sum_list (map (\<lambda>(k, s). mp_total s) ms) + week_contributions week_data"
proof (induction week_data arbitrary: ms)
  case Nil
  show ?case by (simp add: week_contributions_def)
next
  case (Cons a week_data)
  obtain mk md where a: "a = (mk, md)" by (cases a)
  let ?ms1 = "setdefault_upd mk \<lparr>mp_total = 0, mp_week_fraction = 0\<rparr>
      (\<lambda>s. s\<lparr>mp_total := mp_total s + mp_contributions md,
             mp_week_fraction := mp_week_fraction s + of_int (mp_count md) / 7\<rparr>) ms"
  have step: "sum_list (map (\<lambda>(k, s). mp_total s) ?ms1)
      = sum_list (map (\<lambda>(k, s). mp_total s) ms) + mp_contributions md"
    by (rule setdefault_upd_sum) simp_all
  from Cons.IH [of ?ms1] obtain ms' where
    "mp_assign_week week_data ?ms1 = Some ms'"
    "sum_list (map (\<lambda>(k, s). mp_total s) ms')
       = sum_list (map (\<lambda>(k, s). mp_total s) ?ms1) + week_contributions week_data"
    by blast
  with step show ?case
    by (simp add: a mp_fraction_def week_contributions_def)
qed

lemma mp_assign_sum:
  "\<exists>ms'. mp_assign ws ms = Some ms'
     \<and> sum_list (map (\<lambda>(k, s). mp_total s) ms')
         = sum_list (map (\<lambda>(k, s). mp_total s) ms)
           + sum_list (map (\<lambda>(k, w). week_contributions w) ws)"
proof (induction ws arbitrary: ms)
  case Nil
  show ?case by simp
next
  case (Cons a ws)
  obtain wk wd where a: "a = (wk, wd)" by (cases a)
  from mp_assign_week_sum [of wd ms] obtain ms1 where
    1: "mp_assign_week wd ms = Some ms1"
    "sum_list (map (\<lambda>(k, s). mp_total s) ms1)
       = sum_list (map (\<lambda>(k, s). mp_total s) ms) + week_contributions wd"
    by blast
  from Cons.IH [of ms1] obtain ms' where
    "mp_assign ws ms1 = Some ms'"
    "sum_list (map (\<lambda>(k, s). mp_total s) ms')
       = sum_list (map (\<lambda>(k, s). mp_total s) ms1)
         + sum_list (map (\<lambda>(k, w). week_contributions w) ws)"
    by blast
  with 1 show ?case by (simp add: a)
qed

text \<open>
  C2. The week-then-month bucketing of the monthly productivity analysis conserves the
  total: for every list of fetched contribution days, \<open>monthly_stats\<close> is computed (no
  exception), and the sum of the totals attributed to the months is the sum of the
  per-day contribution counts.
\<close>

theorem mp_bucketing_conserves_total:
  "\<exists>monthly_stats. mp_monthly_stats all_contributions = Some monthly_stats
     \<and> sum_list (map (\<lambda>(mk, stats). mp_total stats) monthly_stats)
         = sum_list (map c_count all_contributions)"
proof -
  from mp_assign_sum [of "mp_weekly_stats all_contributions" "[]"]
  show ?thesis by (simp add: mp_monthly_stats_def mp_weekly_stats_sum)
qed

section \<open>The fraction of a week attributed to a month\<close>

lemma map_of_setdefault_upd:
  "map_of (setdefault_upd k d f kvs)
     = (map_of kvs)(k \<mapsto> f (case map_of kvs k of None \<Rightarrow> d | Some v \<Rightarrow> v))"
  by (induction kvs) (auto simp: fun_eq_iff)

lemma keys_setdefault_upd:
  "map fst (setdefault_upd k d f kvs)
     = (if k \<in> fst ` set kvs then map fst kvs else map fst kvs @ [k])"
  by (induction kvs) force+

lemma distinct_setdefault_upd:
  "distinct (map fst kvs) \<Longrightarrow> distinct (map fst (setdefault_upd k d f kvs))"
  by (simp add: keys_setdefault_upd)

lemma set_setdefault_upd:
  "(k', v') \<in> set (setdefault_upd k d f kvs) \<Longrightarrow>
     (k', v') \<in> set kvs \<or> (k' = k \<and> (v' = f d \<or> (\<exists>v. (k, v) \<in> set kvs \<and> v' = f v)))"
  by (induction kvs) (auto split: if_splits)

lemma mp_track_count:
  "mp_count (days_of (mp_track c ws) wk mk)
     = mp_count (days_of ws wk mk)
       + (if week_key (c_date c) = wk \<and> month_key (c_date c) = mk then 1 else 0)"
  by (auto simp: days_of_def mp_track_def map_of_setdefault_upd split: option.splits)

lemma mp_track_keys_distinct:
  assumes "keys_distinct ws"
  shows "keys_distinct (mp_track c ws)"
proof -
  have "distinct (map fst wd)"
    if "(wk, wd) \<in> set (mp_track c ws)" for wk wd
    using set_setdefault_upd [OF that [unfolded mp_track_def]] assms
    by (auto simp: keys_distinct_def list_all_iff distinct_setdefault_upd)
  with assms show ?thesis
    by (auto simp: keys_distinct_def list_all_iff mp_track_def distinct_setdefault_upd)
qed

lemma foldl_mp_track_count:
  "mp_count (days_of (foldl (\<lambda>ws c. mp_track c ws) ws0 cs) wk mk)
     = mp_count (days_of ws0 wk mk)
       + int (length (filter (\<lambda>c. week_key (c_date c) = wk \<and> month_key (c_date c) = mk) cs))"
  by (induction cs arbitrary: ws0) (simp_all add: mp_track_count)

lemma foldl_mp_track_keys_distinct:
  "keys_distinct ws0 \<Longrightarrow> keys_distinct (foldl (\<lambda>ws c. mp_track c ws) ws0 cs)"
  by (induction cs arbitrary: ws0) (simp_all add: mp_track_keys_distinct)

lemma mp_weekly_stats_keys_distinct: "keys_distinct (mp_weekly_stats cs)"
  unfolding mp_weekly_stats_def
  by (rule foldl_mp_track_keys_distinct) (simp add: keys_distinct_def)

lemma days_of_member:
  assumes "keys_distinct ws" "(wk, wd) \<in> set ws" "(mk, md) \<in> set wd"
  shows "days_of ws wk mk = md"
proof -
  from assms have "map_of ws wk = Some wd" by (simp add: keys_distinct_def)
  moreover from assms have "distinct (map fst wd)"
    by (auto simp: keys_distinct_def list_all_iff)
  with assms have "map_of wd mk = Some md" by simp
  ultimately show ?thesis by (simp add: days_of_def)
qed

lemma mp_count_tracked:
  assumes "(wk, wd) \<in> set (mp_weekly_stats cs)" "(mk, md) \<in> set wd"
  shows "mp_count md
    = int (length (filter (\<lambda>c. week_key (c_date c) = wk \<and> month_key (c_date c) = mk) cs))"
proof -
  have "days_of (mp_weekly_stats cs) wk mk = md"
    using mp_weekly_stats_keys_distinct assms by (rule days_of_member)
  then show ?thesis
    using foldl_mp_track_count [of "[]" cs wk mk] by (simp add: mp_weekly_stats_def days_of_def)
qed

lemma mapM_fractions:
  "mapM (\<lambda>(mk, md). mp_fraction md) week_data
     = Some (map (\<lambda>(mk, md). of_int (mp_count md) / 7) week_data)"
  by (rule mapM_Some) (auto simp: mp_fraction_def)

lemma sum_fractions:
  "sum_list (map (\<lambda>(mk, md). (of_int (mp_count md) :: rat) / 7) week_data)
     = of_int (mp_total_days_in_week week_data) / 7"
  unfolding mp_total_days_in_week_def by (induction week_data) (auto simp: add_divide_distrib)

lemma tracked_calendar_days:
  assumes "distinct (map c_date cs)"
    and "\<forall>d. valid_date d \<and> week_key d = wk \<and> month_key d = mk \<longrightarrow> d \<in> c_date ` set cs"
    and "\<forall>c\<in>set cs. valid_date (c_date c)"
  shows "length (filter (\<lambda>c. week_key (c_date c) = wk \<and> month_key (c_date c) = mk) cs)
    = card {d. valid_date d \<and> week_key d = wk \<and> month_key d = mk}"
proof -
  define P where "P = (\<lambda>d. week_key d = wk \<and> month_key d = mk)"
  have "distinct (map c_date (filter (\<lambda>c. P (c_date c)) cs))"
    using assms(1) by (rule distinct_map_filter)
  from distinct_card [OF this]
  have "length (filter (\<lambda>c. P (c_date c)) cs)
      = card (c_date ` {c \<in> set cs. P (c_date c)})"
    by simp
  also have "c_date ` {c \<in> set cs. P (c_date c)} = {d. valid_date d \<and> P d}"
  proof (intro set_eqI iffI)
    fix d assume "d \<in> c_date ` {c \<in> set cs. P (c_date c)}"
    then obtain c where "c \<in> set cs" "P (c_date c)" "d = c_date c" by blast
    with assms(3) show "d \<in> {d. valid_date d \<and> P d}" by simp
  next
    fix d assume "d \<in> {d. valid_date d \<and> P d}"
    then have d: "valid_date d" "P d" by simp_all
    with assms(2) have "d \<in> c_date ` set cs" by (simp add: P_def)
    then obtain c where "c \<in> set cs" "d = c_date c" by blast
    with d show "d \<in> c_date ` {c \<in> set cs. P (c_date c)}" by blast
  qed
  finally show ?thesis by (simp add: P_def)
qed

text \<open>
  C1 (as amended). In the monthly productivity analysis, for every ISO week and every
  month with a fetched day of that week, the fraction of the week attributed to the month
  is the number of fetched days of the week that fall in the month, divided by 7. It is
  the number of the week's calendar days falling in that month divided by 7 when the
  fetched dates are distinct and those calendar days are all among them. For every week
  with 7 fetched days (\<open>total_days_in_week\<close> is 7) the fractions attributed to its months
  sum to 1.
\<close>

theorem week_fraction_is_tracked_days_over_7:
  assumes "(wk, week_data) \<in> set (mp_weekly_stats all_contributions)"
    and "(mk, month_data) \<in> set week_data"
  shows "mp_fraction month_data
       = Some (of_nat (length (filter (\<lambda>c. week_key (c_date c) = wk \<and> month_key (c_date c) = mk)
                                 all_contributions)) / 7)
     \<and> (distinct (map c_date all_contributions)
          \<and> (\<forall>c\<in>set all_contributions. valid_date (c_date c))
          \<and> (\<forall>d. valid_date d \<and> week_key d = wk \<and> month_key d = mk
                 \<longrightarrow> d \<in> c_date ` set all_contributions)
        \<longrightarrow> mp_fraction month_data
             = Some (of_nat (card {d. valid_date d \<and> week_key d = wk \<and> month_key d = mk}) / 7))
     \<and> (\<exists>fractions. mapM (\<lambda>(mk, md). mp_fraction md) week_data = Some fractions
          \<and> (mp_total_days_in_week week_data = 7 \<longrightarrow> sum_list fractions = 1))"
proof -
  have count: "mp_count month_data
      = int (length (filter (\<lambda>c. week_key (c_date c) = wk \<and> month_key (c_date c) = mk)
                       all_contributions))"
    using assms by (rule mp_count_tracked)
  then have 1: "mp_fraction month_data
       = Some (of_nat (length (filter (\<lambda>c. week_key (c_date c) = wk \<and> month_key (c_date c) = mk)
                                 all_contributions)) / 7)"
    by (simp add: mp_fraction_def)
  have 2: "mp_fraction month_data
             = Some (of_nat (card {d. valid_date d \<and> week_key d = wk \<and> month_key d = mk}) / 7)"
    if "distinct (map c_date all_contributions)"
      "\<forall>c\<in>set all_contributions. valid_date (c_date c)"
      "\<forall>d. valid_date d \<and> week_key d = wk \<and> month_key d = mk
                 \<longrightarrow> d \<in> c_date ` set all_contributions"
    using 1 tracked_calendar_days [OF that(1) that(3) that(2)] by simp
  have 3: "mp_total_days_in_week week_data = 7 \<longrightarrow>
      sum_list (map (\<lambda>(mk, md). (of_int (mp_count md) :: rat) / 7) week_data) = 1"
    by (simp add: sum_fractions)
  from 1 2 3 mapM_fractions [of week_data] show ?thesis by blast
qed

text \<open>
  The theorem at the fetched days of ISO week 5 of 2025: five of its days fall in January
  and two in February, the fraction attributed to January is 5/7, and the two fractions
  sum to 1.
\<close>

lemma week_5_of_2025_in_january:
  assumes "valid_date d" "week_key d = (2025, 5)" "month_key d = (2025, 1)"
  shows "d \<in> (\<lambda>k. \<lparr>year = 2025, month = 1, day = k\<rparr>) ` {27, 28, 29, 30, 31}"
proof -
  from assms(3) have ym: "year d = 2025" "month d = 1" by (simp_all add: month_key_def)
  with assms(1) have k: "1 \<le> day d" "day d \<le> 31"
    by (simp_all add: valid_date_def days_in_month_def)
  have "isoweek1monday 2025 = 739250" "isoweek1monday 2026 = 739614"
    by (simp_all add: isoweek1monday_def ymd2ord_def days_before_year_def
        days_before_month_def is_leap_def Let_def)
  moreover have "toordinal d = 739251 + day d"
    by (simp add: toordinal_def ymd2ord_def days_before_year_def
        days_before_month_def is_leap_def Let_def ym)
  ultimately have "(day d + 1) div 7 + 1 = 5"
    using assms(2) k
    by (simp add: week_key_def isocalendar_def Let_def ym split: if_splits)
  with k have "day d \<in> {27, 28, 29, 30, 31}" by auto
  moreover have "d = \<lparr>year = year d, month = month d, day = day d\<rparr>" by simp
  ultimately show ?thesis using ym by (metis (no_types, lifting) image_eqI)
qed

lemma week_5_of_2025_stats:
  "mp_weekly_stats week_5_of_2025
     = [((2025, 5), [((2025, 1), \<lparr>mp_count = 5, mp_contributions = 11\<rparr>),
                     ((2025, 2), \<lparr>mp_count = 2, mp_contributions = 4\<rparr>)])]"
  by code_simp

theorem week_fraction_is_tracked_days_over_7_witness:
  "((2025, 5), [((2025, 1), \<lparr>mp_count = 5, mp_contributions = 11\<rparr>),
                ((2025, 2), \<lparr>mp_count = 2, mp_contributions = 4\<rparr>)])
      \<in> set (mp_weekly_stats week_5_of_2025)
   \<and> mp_fraction \<lparr>mp_count = 5, mp_contributions = 11\<rparr> = Some (5 / 7)
   \<and> card {d. valid_date d \<and> week_key d = (2025, 5) \<and> month_key d = (2025, 1)} = 5
   \<and> mp_total_days_in_week [((2025, 1), \<lparr>mp_count = 5, mp_contributions = 11\<rparr>),
                              ((2025, 2), \<lparr>mp_count = 2, mp_contributions = 4\<rparr>)] = 7
   \<and> (\<exists>fractions.
         mapM (\<lambda>(mk, md). mp_fraction md)
           ([((2025, 1), \<lparr>mp_count = 5, mp_contributions = 11\<rparr>),
             ((2025, 2), \<lparr>mp_count = 2, mp_contributions = 4\<rparr>)] :: mp_week) = Some fractions
         \<and> sum_list fractions = 1)"
proof -
  let ?md = "\<lparr>mp_count = 5, mp_contributions = 11\<rparr>"
  let ?wd = "[((2025, 1), ?md), ((2025, 2), \<lparr>mp_count = 2, mp_contributions = 4\<rparr>)] :: mp_week"
  have in_week: "((2025, 5), ?wd) \<in> set (mp_weekly_stats week_5_of_2025)"
    by (simp add: week_5_of_2025_stats)
  have in_month: "((2025, 1), ?md) \<in> set ?wd" by simp
  have dist: "distinct (map c_date week_5_of_2025)" by (simp add: week_5_of_2025_def)
  have valid: "\<forall>c\<in>set week_5_of_2025. valid_date (c_date c)"
    by (simp add: week_5_of_2025_def valid_date_def days_in_month_def is_leap_def)
  have tracked: "\<forall>d. valid_date d \<and> week_key d = (2025, 5) \<and> month_key d = (2025, 1)
      \<longrightarrow> d \<in> c_date ` set week_5_of_2025"
    using week_5_of_2025_in_january by (auto simp: week_5_of_2025_def)
  have days: "mp_total_days_in_week ?wd = 7" by (simp add: mp_total_days_in_week_def)
  have len: "length (filter (\<lambda>c. week_key (c_date c) = (2025, 5) \<and> month_key (c_date c) = (2025, 1))
                week_5_of_2025) = 5"
    unfolding week_5_of_2025_def by code_simp
  note main = week_fraction_is_tracked_days_over_7 [OF in_week in_month]
  from main len have a: "mp_fraction ?md = Some (5 / 7)" by simp
  from main dist valid tracked
  have "mp_fraction ?md
      = Some (of_nat (card {d. valid_date d \<and> week_key d = (2025, 5) \<and> month_key d = (2025, 1)}) / 7)"
    by blast
  with a have b: "card {d. valid_date d \<and> week_key d = (2025, 5) \<and> month_key d = (2025, 1)} = 5"
    by simp
  from main days obtain fractions where
    c: "mapM (\<lambda>(mk, md). mp_fraction md) ?wd = Some fractions" "sum_list fractions = 1"
    by blast
  from in_week a b days c show ?thesis by blast
qed

text \<open>
  C1 as stated fails twice. In the productivity analysis only fetched days count: when
  the first fetched day is Friday 3 January 2025, ISO week 1 of 2025 has three fetched
  days, so January gets 3/7 of it, although five calendar days of that week (1 to 5
  January) fall in January. In the code metrics analysis \<open>days_in_this_month\<close> is the
  number of pull requests created in the week and month, not a number of days: eight pull
  requests created on 15 January 2025 give January 8/7 of ISO week 3, more than the whole
  week.
\<close>

theorem week_fraction_counterexample:
  "mp_weekly_stats
      [\<lparr>c_date = \<lparr>year = 2025, month = 1, day = 3\<rparr>, c_count = 4\<rparr>,
       \<lparr>c_date = \<lparr>year = 2025, month = 1, day = 4\<rparr>, c_count = 0\<rparr>,
       \<lparr>c_date = \<lparr>year = 2025, month = 1, day = 5\<rparr>, c_count = 1\<rparr>]
     = [((2025, 1), [((2025, 1), \<lparr>mp_count = 3, mp_contributions = 5\<rparr>)])]
   \<and> mp_fraction \<lparr>mp_count = 3, mp_contributions = 5\<rparr> = Some (3 / 7)
   \<and> map (\<lambda>d. (valid_date d, week_key d, month_key d))
        [\<lparr>year = 2024, month = 12, day = 30\<rparr>, \<lparr>year = 2024, month = 12, day = 31\<rparr>,
         \<lparr>year = 2025, month = 1, day = 1\<rparr>, \<lparr>year = 2025, month = 1, day = 2\<rparr>,
         \<lparr>year = 2025, month = 1, day = 3\<rparr>, \<lparr>year = 2025, month = 1, day = 4\<rparr>,
         \<lparr>year = 2025, month = 1, day = 5\<rparr>]
     = [(True, (2025, 1), (2024, 12)), (True, (2025, 1), (2024, 12)),
        (True, (2025, 1), (2025, 1)), (True, (2025, 1), (2025, 1)),
        (True, (2025, 1), (2025, 1)), (True, (2025, 1), (2025, 1)),
        (True, (2025, 1), (2025, 1))]
   \<and> (3 :: rat) / 7 \<noteq> 5 / 7
   \<and> mc_weekly_stats
        (replicate 8 \<lparr>mc_createdAt = \<lparr>dt_date = \<lparr>year = 2025, month = 1, day = 15\<rparr>,
                                        dt_micro = 0\<rparr>,
                       mc_additions = 10, mc_deletions = 2, mc_isPrivate = False\<rparr>)
     = [((2025, 3), [((2025, 1), \<lparr>mc_count = 8, mc_days_additions = 80,
                                    mc_days_deletions = 16, mc_days_total = 96\<rparr>)])]
   \<and> mc_fraction \<lparr>mc_count = 8, mc_days_additions = 80, mc_days_deletions = 16,
                   mc_days_total = 96\<rparr> = Some (8 / 7)
   \<and> (8 :: rat) / 7 > 1"
  by code_simp

section \<open>No computation divides by zero\<close>

text \<open>
  In the model of the analyses \<open>None\<close> comes from \<^const>\<open>truediv\<close>, \<^const>\<open>floordiv\<close>
  and \<^const>\<open>pymod\<close> alone, at a divisor that is 0; so an analysis that returns
  \<open>Some\<close> has met no \<open>ZeroDivisionError\<close>.
\<close>

lemma average_Some: "xs \<noteq> [] \<Longrightarrow> average xs = Some (sum_list xs / of_nat (length xs))"
  by (simp add: average_def)

lemma mp_monthly_stats_total: "\<exists>ms. mp_monthly_stats cs = Some ms"
  using mp_assign_sum [of "mp_weekly_stats cs" "[]"] by (auto simp: mp_monthly_stats_def)

lemma mp_month_entry_Some:
  "mp_month_entry wpw (mk, stats)
     = Some \<lparr>mp_month_key = mk, mp_avg = per_workday (mp_week_fraction stats) wpw (mp_total stats),
             mp_month_total = mp_total stats, mp_month_week_fraction = mp_week_fraction stats\<rparr>"
  by (simp add: mp_month_entry_def per_workday_def Let_def)

lemma mp_monthly_data_Some:
  assumes "mp_monthly_stats cs = Some ms"
  shows "mp_monthly_data cs wpw
     = Some (map (\<lambda>(mk, stats). \<lparr>mp_month_key = mk, mp_avg = per_workday (mp_week_fraction stats) wpw (mp_total stats),
             mp_month_total = mp_total stats, mp_month_week_fraction = mp_week_fraction stats\<rparr>)
           (sort_key fst ms))"
proof -
  have "mapM (mp_month_entry wpw) (sort_key fst ms)
     = Some (map (\<lambda>(mk, stats). \<lparr>mp_month_key = mk, mp_avg = per_workday (mp_week_fraction stats) wpw (mp_total stats),
             mp_month_total = mp_total stats, mp_month_week_fraction = mp_week_fraction stats\<rparr>)
           (sort_key fst ms))"
    by (rule mapM_Some) (auto simp: mp_month_entry_Some)
  with assms show ?thesis by (simp add: mp_monthly_data_def)
qed

lemma moving_avg_Some:
  "moving_avg averages
     = Some (map (\<lambda>i. if i < window_size - 1
                then sum_list (pyslice 0 (i + 1) averages) / of_nat (i + 1)
                else sum_list (pyslice (i + 1 - window_size) (i + 1) averages) / of_nat window_size)
       [0..<length averages])"
  unfolding moving_avg_def by (rule mapM_Some) (simp add: window_size_def)

lemma trend_line_total: "\<exists>t. trend_line averages = Some t"
  by (simp add: trend_line_def moving_avg_Some)

lemma x_labels_to_show_total: "\<exists>ys. x_labels_to_show n = Some ys"
proof -
  have "\<exists>ys. mapM (\<lambda>i. do { r \<leftarrow> pymod (int i) (max 1 (int n div 20)); Some (r = 0) }) [0..<n] = Some ys"
    by (rule mapM_total) (simp add: pymod_def)
  then show ?thesis by (simp add: x_labels_to_show_def floordiv_def)
qed

lemma mp_trend_statistics_total:
  assumes "active \<noteq> []"
  shows "\<exists>t. mp_trend_statistics active = Some t"
proof -
  have 1: "(if 12 \<le> length active then last_n 12 active else active) \<noteq> []"
    using assms by (auto simp: last_n_def)
  show ?thesis
    unfolding mp_trend_statistics_def Let_def
    by (simp add: average_Some [OF 1] average_Some)
qed

lemma mp_summary_statistics_total: "\<exists>t. mp_summary_statistics monthly_data = Some t"
  by (simp add: mp_summary_statistics_def Let_def average_Some)

lemma mp_visual_graph_total: "\<exists>t. mp_visual_graph monthly_data = Some t"
proof (cases "filter (\<lambda>m. mp_avg m > 0) monthly_data = []")
  case True
  then show ?thesis by (simp add: mp_visual_graph_def)
next
  case False
  let ?av = "map mp_avg (filter (\<lambda>m. mp_avg m > 0) monthly_data)"
  from False have "?av \<noteq> []" by simp
  from mp_trend_statistics_total [OF this] obtain st where "mp_trend_statistics ?av = Some st" ..
  moreover obtain tr where "trend_line ?av = Some tr" using trend_line_total by blast
  moreover obtain sh where "x_labels_to_show (length (filter (\<lambda>m. mp_avg m > 0) monthly_data)) = Some sh"
    using x_labels_to_show_total by blast
  ultimately show ?thesis using False by (simp add: mp_visual_graph_def Let_def)
qed

lemma mp_analysis_total: "\<exists>r. mp_analysis cs wpw = Some r"
proof -
  obtain ms where "mp_monthly_stats cs = Some ms" using mp_monthly_stats_total by blast
  from mp_monthly_data_Some [OF this] obtain md where "mp_monthly_data cs wpw = Some md" by blast
  moreover obtain su where "mp_summary_statistics md = Some su" using mp_summary_statistics_total by blast
  moreover obtain g where "mp_visual_graph md = Some g" using mp_visual_graph_total by blast
  ultimately show ?thesis by (simp add: mp_analysis_def)
qed

lemma mc_assign_week_total: "\<exists>ms'. mc_assign_week week_data ms = Some ms'"
  by (induction week_data arbitrary: ms) (auto simp: mc_fraction_def)

lemma mc_assign_total: "\<exists>ms'. mc_assign ws ms = Some ms'"
proof (induction ws arbitrary: ms)
  case Nil
  show ?case by simp
next
  case (Cons a ws)
  obtain wk wd where a: "a = (wk, wd)" by (cases a)
  obtain ms1 where "mc_assign_week wd ms = Some ms1" using mc_assign_week_total by blast
  with Cons.IH [of ms1] show ?case by (simp add: a)
qed

lemma mc_monthly_stats_total: "\<exists>ms. mc_monthly_stats prs = Some ms"
  by (simp add: mc_monthly_stats_def mc_assign_total)

lemma mc_month_entry_Some:
  "mc_month_entry wpw (mk, stats)
     = Some \<lparr>mc_month_key = mk,
             mc_avg_additions = per_workday (mc_week_fraction stats) wpw (mc_stats_additions stats),
             mc_avg_deletions = per_workday (mc_week_fraction stats) wpw (mc_stats_deletions stats),
             mc_avg_total = per_workday (mc_week_fraction stats) wpw (mc_stats_total stats),
             mc_total_additions = mc_stats_additions stats,
             mc_total_deletions = mc_stats_deletions stats,
             mc_total_changes = mc_stats_total stats,
             mc_month_week_fraction = mc_week_fraction stats\<rparr>"
  by (simp add: mc_month_entry_def per_workday_def Let_def)

lemma mc_monthly_data_Some:
  assumes "mc_monthly_stats prs = Some ms"
  shows "mc_monthly_data prs wpw
     = Some (map (\<lambda>(mk, stats). \<lparr>mc_month_key = mk,
             mc_avg_additions = per_workday (mc_week_fraction stats) wpw (mc_stats_additions stats),
             mc_avg_deletions = per_workday (mc_week_fraction stats) wpw (mc_stats_deletions stats),
             mc_avg_total = per_workday (mc_week_fraction stats) wpw (mc_stats_total stats),
             mc_total_additions = mc_stats_additions stats,
             mc_total_deletions = mc_stats_deletions stats,
             mc_total_changes = mc_stats_total stats,
             mc_month_week_fraction = mc_week_fraction stats\<rparr>)
           (sort_key fst ms))"
proof -
  have "mapM (mc_month_entry wpw) (sort_key fst ms)
     = Some (map (\<lambda>(mk, stats). \<lparr>mc_month_key = mk,
             mc_avg_additions = per_workday (mc_week_fraction stats) wpw (mc_stats_additions stats),
             mc_avg_deletions = per_workday (mc_week_fraction stats) wpw (mc_stats_deletions stats),
             mc_avg_total = per_workday (mc_week_fraction stats) wpw (mc_stats_total stats),
             mc_total_additions = mc_stats_additions stats,
             mc_total_deletions = mc_stats_deletions stats,
             mc_total_changes = mc_stats_total stats,
             mc_month_week_fraction = mc_week_fraction stats\<rparr>)
           (sort_key fst ms))"
    by (rule mapM_Some) (auto simp: mc_month_entry_Some)
  with assms show ?thesis by (simp add: mc_monthly_data_def)
qed

lemma mc_summary_statistics_total: "\<exists>t. mc_summary_statistics monthly_data = Some t"
proof (cases "filter (\<lambda>m. mc_avg_total m > 0) monthly_data = []")
  case True
  then show ?thesis by (simp add: mc_summary_statistics_def)
next
  case False
  let ?act = "filter (\<lambda>m. mc_avg_total m > 0) monthly_data"
  have 1: "(if 12 \<le> length ?act then last_n 12 ?act else ?act) \<noteq> []"
    using False by (auto simp: last_n_def)
  show ?thesis
    unfolding mc_summary_statistics_def Let_def
    using False 1 by (simp add: average_Some)
qed

lemma mc_visual_graphs_total: "\<exists>t. mc_visual_graphs monthly_data = Some t"
proof (cases "filter (\<lambda>m. mc_avg_total m > 0) monthly_data = []")
  case True
  then show ?thesis by (simp add: mc_visual_graphs_def)
next
  case False
  let ?act = "filter (\<lambda>m. mc_avg_total m > 0) monthly_data"
  obtain ta where "trend_line (map mc_avg_additions ?act) = Some ta"
    using trend_line_total by blast
  moreover obtain td where "trend_line (map mc_avg_deletions ?act) = Some td"
    using trend_line_total by blast
  moreover obtain tt where "trend_line (map mc_avg_total ?act) = Some tt"
    using trend_line_total by blast
  moreover obtain sh where "x_labels_to_show (length ?act) = Some sh"
    using x_labels_to_show_total by blast
  ultimately show ?thesis using False by (simp add: mc_visual_graphs_def Let_def)
qed

lemma mc_analysis_total: "\<exists>r. mc_analysis prs wpw = Some r"
proof -
  obtain ms where "mc_monthly_stats prs = Some ms" using mc_monthly_stats_total by blast
  from mc_monthly_data_Some [OF this] obtain md where "mc_monthly_data prs wpw = Some md" by blast
  moreover obtain su where "mc_summary_statistics md = Some su" using mc_summary_statistics_total by blast
  moreover obtain g where "mc_visual_graphs md = Some g" using mc_visual_graphs_total by blast
  ultimately show ?thesis by (simp add: mc_analysis_def)
qed

lemma weekday_breakdown_total: "\<exists>rows. weekday_breakdown weeks = Some rows"
  unfolding weekday_breakdown_def
  by (rule mapM_total) (simp add: weekday_breakdown_row_def Let_def)

lemma calc_pct_total: "\<exists>p. calc_pct curr_val prev_val = Some p"
  by (simp add: calc_pct_def)

lemma growth_pct_total: "\<exists>p. growth_pct change prev = Some p"
  by (simp add: growth_pct_def)

lemma pct_change_row_total: "\<exists>r. pct_change_row pc = Some r"
proof -
  obtain prev curr where pc: "pc = (prev, curr)" by (cases pc)
  have "\<exists>p. calc_pct a b = Some p" for a b by (rule calc_pct_total)
  then obtain p1 p2 p3 p4 p5 p6 p7 where
    "calc_pct (ys_total curr) (ys_total prev) = Some p1"
    "calc_pct (ys_commits curr) (ys_commits prev) = Some p2"
    "calc_pct (ys_issues curr) (ys_issues prev) = Some p3"
    "calc_pct (ys_prs curr) (ys_prs prev) = Some p4"
    "calc_pct (ys_reviews curr) (ys_reviews prev) = Some p5"
    "calc_pct (ys_repos curr) (ys_repos prev) = Some p6"
    "calc_pct (ys_restricted curr) (ys_restricted prev) = Some p7"
    by metis
  then show ?thesis by (simp add: pct_change_row_def pc)
qed

lemma growth_row_total: "\<exists>r. growth_row pc = Some r"
proof -
  obtain prev curr where pc: "pc = (prev, curr)" by (cases pc)
  have "\<exists>p. growth_pct a b = Some p" for a b by (rule growth_pct_total)
  then obtain p1 p2 p3 p4 p5 where
    "growth_pct (ys_total curr - ys_total prev) (ys_total prev) = Some p1"
    "growth_pct (ys_commits curr - ys_commits prev) (ys_commits prev) = Some p2"
    "growth_pct (ys_issues curr - ys_issues prev) (ys_issues prev) = Some p3"
    "growth_pct (ys_prs curr - ys_prs prev) (ys_prs prev) = Some p4"
    "growth_pct (ys_reviews curr - ys_reviews prev) (ys_reviews prev) = Some p5"
    by metis
  then show ?thesis by (simp add: growth_row_def pc)
qed

lemma lt_analysis_total: "\<exists>r. lt_analysis yearly_data = Some r"
proof -
  obtain table where 1: "mapM pct_change_row (zip yearly_data (tl yearly_data)) = Some table"
    using mapM_total [of _ pct_change_row] pct_change_row_total by blast
  obtain growth where 2: "mapM growth_row (zip yearly_data (tl yearly_data)) = Some growth"
    using mapM_total [of _ growth_row] growth_row_total by blast
  obtain ov where 3: "growth_pct (ys_total (last yearly_data) - ys_total (hd yearly_data))
                 (ys_total (hd yearly_data)) = Some ov"
    using growth_pct_total by blast
  show ?thesis
    unfolding lt_analysis_def Let_def by (simp add: 1 2 3)
qed

text \<open>
  C10. No division by zero is reachable: for every contribution calendar, every list of
  yearly statistics, every list of contribution days or of pull requests and every number
  of workdays per week, the weekday breakdown (both yearly scripts), the lifetime
  analysis and the two monthly analyses return a result; each quotient they compute is
  guarded or has a divisor that is not 0. (The work summary computes no quotient.)
\<close>

theorem no_division_by_zero:
  "(\<exists>rows. weekday_breakdown weeks = Some rows)
   \<and> (\<exists>report. lt_analysis yearly_data = Some report)
   \<and> (\<exists>report. mp_analysis all_contributions workdays_per_week = Some report)
   \<and> (\<exists>report. mc_analysis all_prs workdays_per_week' = Some report)"
  using weekday_breakdown_total lt_analysis_total mp_analysis_total mc_analysis_total by blast

section \<open>Workday normalization\<close>

text \<open>
  C3 (as amended). In both monthly analyses \<open>monthly_data\<close> is computed, and it lists
  the months of \<open>monthly_stats\<close> in the order of their keys; each reported average per
  workday (of contributions, additions, deletions and total changes) is the month's
  accumulated total divided by (accumulated week fraction \<times> workdays per week) where
  that product is positive, and 0 where it is 0 or negative.
\<close>

theorem avg_per_workday_formula:
  "(\<exists>monthly_stats. mp_monthly_stats all_contributions = Some monthly_stats
      \<and> mp_monthly_data all_contributions workdays_per_week
          = Some (map (\<lambda>(mk, stats).
                    \<lparr>mp_month_key = mk,
                     mp_avg = per_workday (mp_week_fraction stats) workdays_per_week (mp_total stats),
                     mp_month_total = mp_total stats,
                     mp_month_week_fraction = mp_week_fraction stats\<rparr>)
                  (sort_key fst monthly_stats)))
   \<and> (\<exists>monthly_stats. mc_monthly_stats all_prs = Some monthly_stats
      \<and> mc_monthly_data all_prs workdays_per_week'
          = Some (map (\<lambda>(mk, stats).
                    \<lparr>mc_month_key = mk,
                     mc_avg_additions = per_workday (mc_week_fraction stats) workdays_per_week' (mc_stats_additions stats),
                     mc_avg_deletions = per_workday (mc_week_fraction stats) workdays_per_week' (mc_stats_deletions stats),
                     mc_avg_total = per_workday (mc_week_fraction stats) workdays_per_week' (mc_stats_total stats),
                     mc_total_additions = mc_stats_additions stats,
                     mc_total_deletions = mc_stats_deletions stats,
                     mc_total_changes = mc_stats_total stats,
                     mc_month_week_fraction = mc_week_fraction stats\<rparr>)
                  (sort_key fst monthly_stats)))"
  using mp_monthly_stats_total [of all_contributions] mc_monthly_stats_total [of all_prs]
    mp_monthly_data_Some mc_monthly_data_Some by blast

text \<open>
  C3 as stated fails for a negative number of workdays per week, which the option
  \<open>--workdays-per-week\<close> accepts: with \<open>-5\<close> and one fetched day of 10 contributions the
  accumulated week fraction is 1/7, the product is \<open>-5/7\<close>, the reported average is 0,
  and the quotient of the claim is \<open>-14\<close>.
\<close>

theorem avg_per_workday_counterexample:
  "mp_monthly_data [\<lparr>c_date = \<lparr>year = 2025, month = 1, day = 6\<rparr>, c_count = 10\<rparr>] (- 5)
     = Some [\<lparr>mp_month_key = (2025, 1), mp_avg = 0, mp_month_total = 10,
              mp_month_week_fraction = 1 / 7\<rparr>]
   \<and> (10 :: rat) / (1 / 7 * of_int (- 5)) = - 14"
  by code_simp

section \<open>Moving averages\<close>

lemma moving_avg_is_trend:
  "\<exists>t. moving_avg xs = Some t \<and> six_month_trend xs t"
proof -
  define f where "f = (\<lambda>i. if i < window_size - 1
                then sum_list (pyslice 0 (i + 1) xs) / of_nat (i + 1)
                else sum_list (pyslice (i + 1 - window_size) (i + 1) xs) / of_nat window_size)"
  have f: "f i = mean_of_last (min (i + 1) 6) (take (i + 1) xs)" if "i < length xs" for i
  proof (cases "i < 5")
    case True
    with that show ?thesis
      by (simp add: f_def window_size_def mean_of_last_def pyslice_def min_def)
  next
    case False
    then have "min (i + 1) 6 = 6" by simp
    moreover have "pyslice (i + 1 - 6) (i + 1) xs = drop (i + 1 - 6) (take (i + 1) xs)"
      using False by (simp add: pyslice_def drop_take)
    moreover have "length (take (i + 1) xs) = i + 1" using that by simp
    ultimately show ?thesis using False
      by (simp add: f_def window_size_def mean_of_last_def)
  qed
  have "map f [0..<length xs] ! i = mean_of_last (min (i + 1) 6) (take (i + 1) xs)"
    if "i < length xs" for i
    using that f [OF that] by (simp del: upt_Suc)
  then have "six_month_trend xs (map f [0..<length xs])"
    unfolding six_month_trend_def by simp
  moreover have "moving_avg xs = Some (map f [0..<length xs])"
    unfolding f_def by (rule moving_avg_Some)
  ultimately show ?thesis by blast
qed

lemma trend_line_is_trend:
  assumes "6 \<le> length xs"
  shows "\<exists>t. trend_line xs = Some (Some t) \<and> six_month_trend xs t"
  using assms moving_avg_is_trend [of xs] by (auto simp: trend_line_def window_size_def)

text \<open>
  C7. Whenever a monthly analysis has at least 6 active months, each trend series it
  plots (one in the productivity analysis, three in the code metrics analysis) is
  computed, has the length of its input series, and its element at index \<open>i\<close> is the
  arithmetic mean of the last \<open>min (i + 1) 6\<close> input elements up to index \<open>i\<close>.
\<close>

theorem trend_is_six_month_moving_average:
  "(let active_months = filter (\<lambda>m. mp_avg m > 0) monthly_data in
      6 \<le> length active_months \<longrightarrow>
        (\<exists>graph trend. mp_visual_graph monthly_data = Some (Some graph)
           \<and> mp_moving_avg graph = Some trend
           \<and> six_month_trend (map mp_avg active_months) trend))
   \<and> (let active_months = filter (\<lambda>m. mc_avg_total m > 0) code_data in
      6 \<le> length active_months \<longrightarrow>
        (\<exists>graphs trend_a trend_d trend_t. mc_visual_graphs code_data = Some (Some graphs)
           \<and> mc_trend_additions graphs = Some trend_a
           \<and> six_month_trend (map mc_avg_additions active_months) trend_a
           \<and> mc_trend_deletions graphs = Some trend_d
           \<and> six_month_trend (map mc_avg_deletions active_months) trend_d
           \<and> mc_trend_totals graphs = Some trend_t
           \<and> six_month_trend (map mc_avg_total active_months) trend_t))"
proof -
  have mp: "\<exists>graph trend. mp_visual_graph monthly_data = Some (Some graph)
           \<and> mp_moving_avg graph = Some trend
           \<and> six_month_trend (map mp_avg (filter (\<lambda>m. mp_avg m > 0) monthly_data)) trend"
    if len: "6 \<le> length (filter (\<lambda>m. mp_avg m > 0) monthly_data)"
  proof -
    let ?act = "filter (\<lambda>m. mp_avg m > 0) monthly_data"
    from len have ne: "?act \<noteq> []" by auto
    then have "map mp_avg ?act \<noteq> []" by simp
    from mp_trend_statistics_total [OF this]
    obtain st where st: "mp_trend_statistics (map mp_avg ?act) = Some st" ..
    obtain sh where sh: "x_labels_to_show (length ?act) = Some sh"
      using x_labels_to_show_total by blast
    from len trend_line_is_trend [of "map mp_avg ?act"]
    obtain t where t: "trend_line (map mp_avg ?act) = Some (Some t)"
      "six_month_trend (map mp_avg ?act) t" by auto
    from ne st sh t show ?thesis by (simp add: mp_visual_graph_def Let_def)
  qed
  have mc: "\<exists>graphs trend_a trend_d trend_t. mc_visual_graphs code_data = Some (Some graphs)
           \<and> mc_trend_additions graphs = Some trend_a
           \<and> six_month_trend (map mc_avg_additions (filter (\<lambda>m. mc_avg_total m > 0) code_data)) trend_a
           \<and> mc_trend_deletions graphs = Some trend_d
           \<and> six_month_trend (map mc_avg_deletions (filter (\<lambda>m. mc_avg_total m > 0) code_data)) trend_d
           \<and> mc_trend_totals graphs = Some trend_t
           \<and> six_month_trend (map mc_avg_total (filter (\<lambda>m. mc_avg_total m > 0) code_data)) trend_t"
    if len: "6 \<le> length (filter (\<lambda>m. mc_avg_total m > 0) code_data)"
  proof -
    let ?act = "filter (\<lambda>m. mc_avg_total m > 0) code_data"
    from len have ne: "?act \<noteq> []" by auto
    obtain sh where sh: "x_labels_to_show (length ?act) = Some sh"
      using x_labels_to_show_total by blast
    from len trend_line_is_trend [of "map mc_avg_additions ?act"]
    obtain ta where ta: "trend_line (map mc_avg_additions ?act) = Some (Some ta)"
      "six_month_trend (map mc_avg_additions ?act) ta" by auto
    from len trend_line_is_trend [of "map mc_avg_deletions ?act"]
    obtain td where td: "trend_line (map mc_avg_deletions ?act) = Some (Some td)"
      "six_month_trend (map mc_avg_deletions ?act) td" by auto
    from len trend_line_is_trend [of "map mc_avg_total ?act"]
    obtain tt where tt: "trend_line (map mc_avg_total ?act) = Some (Some tt)"
      "six_month_trend (map mc_avg_total ?act) tt" by auto
    from ne sh ta td tt show ?thesis by (simp add: mc_visual_graphs_def Let_def)
  qed
  from mp mc show ?thesis unfolding Let_def by blast
qed

text \<open>
  The theorem at seven active months with the averages 1 to 7 (and their doubles and
  triples): each trend has length 7, and its last element is the mean of the last six
  inputs.
\<close>

lemma six_month_trend_at_6:
  assumes "six_month_trend [x0, x1, x2, x3, x4, x5, x6] t"
  shows "length t = 7 \<and> t ! 6 = (x1 + x2 + x3 + x4 + x5 + x6) / 6"
proof -
  from assms have l: "length t = 7"
    and a: "\<forall>i<7. t ! i = mean_of_last (min (i + 1) 6) (take (i + 1) [x0, x1, x2, x3, x4, x5, x6])"
    by (simp_all add: six_month_trend_def)
  from a [rule_format, of 6]
  have "t ! 6 = mean_of_last 6 [x0, x1, x2, x3, x4, x5, x6]" by simp
  then show ?thesis using l by (simp add: mean_of_last_def)
qed

theorem trend_is_six_month_moving_average_witness:
  "6 \<le> length (filter (\<lambda>m. mp_avg m > 0) seven_months)
   \<and> (\<exists>graph trend. mp_visual_graph seven_months = Some (Some graph)
         \<and> mp_moving_avg graph = Some trend \<and> length trend = 7 \<and> trend ! 6 = 9 / 2)
   \<and> 6 \<le> length (filter (\<lambda>m. mc_avg_total m > 0) seven_code_months)
   \<and> (\<exists>graphs trend_a trend_d trend_t. mc_visual_graphs seven_code_months = Some (Some graphs)
         \<and> mc_trend_additions graphs = Some trend_a \<and> length trend_a = 7 \<and> trend_a ! 6 = 9 / 2
         \<and> mc_trend_deletions graphs = Some trend_d \<and> length trend_d = 7 \<and> trend_d ! 6 = 9
         \<and> mc_trend_totals graphs = Some trend_t \<and> length trend_t = 7 \<and> trend_t ! 6 = 27 / 2)"
proof -
  have mp_act: "filter (\<lambda>m. mp_avg m > 0) seven_months = seven_months"
    by (simp add: seven_months_def)
  have mc_act: "filter (\<lambda>m. mc_avg_total m > 0) seven_code_months = seven_code_months"
    by (simp add: seven_code_months_def)
  have len: "length seven_months = 7" "length seven_code_months = 7"
    by (simp_all add: seven_months_def seven_code_months_def)
  have series: "map mp_avg seven_months = [1, 2, 3, 4, 5, 6, 7]"
    "map mc_avg_additions seven_code_months = [1, 2, 3, 4, 5, 6, 7]"
    "map mc_avg_deletions seven_code_months = [2, 4, 6, 8, 10, 12, 14]"
    "map mc_avg_total seven_code_months = [3, 6, 9, 12, 15, 18, 21]"
    by (simp_all add: seven_months_def seven_code_months_def)
  note main = trend_is_six_month_moving_average [of seven_months seven_code_months,
      unfolded Let_def mp_act mc_act len series]
  from main obtain graph trend where
    mp: "mp_visual_graph seven_months = Some (Some graph)" "mp_moving_avg graph = Some trend"
      "six_month_trend [1, 2, 3, 4, 5, 6, 7] trend"
    by auto
  from main obtain graphs trend_a trend_d trend_t where
    mc: "mc_visual_graphs seven_code_months = Some (Some graphs)"
      "mc_trend_additions graphs = Some trend_a" "six_month_trend [1, 2, 3, 4, 5, 6, 7] trend_a"
      "mc_trend_deletions graphs = Some trend_d" "six_month_trend [2, 4, 6, 8, 10, 12, 14] trend_d"
      "mc_trend_totals graphs = Some trend_t" "six_month_trend [3, 6, 9, 12, 15, 18, 21] trend_t"
    by auto
  from six_month_trend_at_6 [OF mp(3)] six_month_trend_at_6 [OF mc(3)]
    six_month_trend_at_6 [OF mc(5)] six_month_trend_at_6 [OF mc(7)]
  have "length trend = 7 \<and> trend ! 6 = 9 / 2" "length trend_a = 7 \<and> trend_a ! 6 = 9 / 2"
    "length trend_d = 7 \<and> trend_d ! 6 = 9" "length trend_t = 7 \<and> trend_t ! 6 = 27 / 2"
    by simp_all
  with mp mc mp_act mc_act len show ?thesis by auto
qed

section \<open>Requests, failures and files\<close>

lemma only_writes_Post: "only_writes es \<Longrightarrow> Post url login \<notin> set es"
  by (induction es rule: only_writes.induct) auto

lemma only_writes_RaiseForStatus: "only_writes es \<Longrightarrow> RaiseForStatus \<notin> set es"
  by (induction es rule: only_writes.induct) auto

lemma paired_Post:
  "paired url login es \<Longrightarrow> Post url' login' \<in> set es \<Longrightarrow> url' = url \<and> login' = login"
  by (induction url login es rule: paired.induct) (auto dest: only_writes_Post)

lemma paired_request:
  "paired url login (Post url login # RaiseForStatus # es) = paired url login es"
  by simp

lemma graphql_post_cases:
  "graphql_post url login r = ([Post url login], NoReply)
   \<or> graphql_post url login r = ([Post url login], Raised)
   \<or> graphql_post url login r = ([Post url login, RaiseForStatus], Raised)
   \<or> graphql_post url login r = ([Post url login, RaiseForStatus], ApiErrors)
   \<or> (\<exists>p. graphql_post url login r = ([Post url login, RaiseForStatus], Body p))"
  by (auto simp: graphql_post_def split: option.splits reply.splits)

lemma fc_main_paired: "paired api (user a) (fst (fc_main a e replies))"
  using graphql_post_cases [of api "user a" "next_reply replies"]
  by (auto simp: fc_main_def api_def split: payload.splits option.splits)

lemma next_reply_simps [simp]:
  "next_reply [] = None" "next_reply (r # rs) = Some r"
  by (simp_all add: next_reply_def)

lemma ys_years_paired: "paired api username (fst (ys_years username years replies))"
proof (induction years arbitrary: replies)
  case Nil
  show ?case by simp
next
  case (Cons y years)
  show ?case
    using Cons.IH [of "tl replies"]
    by (cases replies)
      (auto simp: fetch_and_display_contributions_def graphql_post_def api_def after_def
        split: reply.splits payload.splits option.splits)
qed

lemma ys_main_paired: "paired api (user a) (fst (ys_main a e replies))"
  using ys_years_paired [of "user a" _ "tl replies"]
  by (cases replies)
    (auto simp: ys_main_def get_account_creation_year_def graphql_post_def api_def after_def
        ys_years_paired [unfolded api_def]
      simp del: ys_years.simps
      split: reply.splits payload.splits option.splits)

lemma lt_years_paired: "paired api ''joelbrostrom'' (fst (lt_years years replies yearly_data))"
proof (induction years arbitrary: replies yearly_data)
  case Nil
  show ?case by simp
next
  case (Cons y years)
  show ?case
    using Cons.IH [of "tl replies"]
    by (cases replies)
      (auto simp: graphql_post_def api_def split_beta
        split: reply.splits payload.splits option.splits)
qed

lemma lt_main_paired: "paired api ''joelbrostrom'' (fst (lt_main argv e replies))"
  using lt_years_paired [of _ "tl replies" "[]"]
  by (cases replies)
    (auto simp: lt_main_def graphql_post_def api_def split_beta
      split: reply.splits payload.splits option.splits sum.splits)

lemma mp_years_paired: "paired api username (fst (mp_years username years replies cs))"
proof (induction years arbitrary: replies cs)
  case Nil
  show ?case by simp
next
  case (Cons y years)
  show ?case
    using Cons.IH [of "tl replies"]
    by (cases replies)
      (auto simp: graphql_post_def api_def split_beta
        split: reply.splits payload.splits option.splits)
qed

lemma only_writes_append [simp]:
  "only_writes (es @ es') = (only_writes es \<and> only_writes es')"
  by (induction es rule: only_writes.induct) auto

lemma paired_append_writes:
  "paired url login es \<Longrightarrow> only_writes ws \<Longrightarrow> paired url login (es @ ws)"
  by (induction url login es rule: paired.induct) (auto elim: only_writes.elims)

lemma mp_main_paired: "paired api (user a) (fst (mp_main a e replies))"
  using mp_years_paired [of "user a" _ "tl replies" "[]"]
    paired_append_writes [OF mp_years_paired [of "user a" _ "tl replies" "[]"],
      of "[WriteFile ''monthly_productivity_data.json'']"]
  by (cases replies)
    (auto simp: mp_main_def graphql_post_def api_def split_beta
      split: reply.splits payload.splits option.splits sum.splits)

lemma mc_fetch_prs_paired: "paired api username (fst (mc_fetch_prs username replies all_prs))"
  by (induction replies arbitrary: all_prs)
    (auto simp: graphql_post_def api_def split_beta
      split: reply.splits payload.splits option.splits)

lemma mc_main_paired: "paired api (user a) (fst (mc_main a e replies))"
  using mc_fetch_prs_paired [of "user a" "tl replies" "[]"]
    paired_append_writes [OF mc_fetch_prs_paired [of "user a" "tl replies" "[]"],
      of "[WriteFile ''monthly_code_metrics_data.json'']"]
  by (cases replies)
    (auto simp: mc_main_def graphql_post_def api_def split_beta
      split: reply.splits payload.splits option.splits sum.splits)

lemma ws_fetch_prs_paired:
  "paired api username (fst (ws_fetch_prs username start_date end_date replies all_prs))"
  by (induction replies arbitrary: all_prs)
    (auto simp: graphql_post_def api_def split_beta
      split: reply.splits payload.splits option.splits)

lemma ws_main_paired: "paired api (user a) (fst (ws_main a e replies))"
proof -
  have "paired api (user a) (fst (ws_fetch_prs (user a) s t replies []) @ [WriteFile f])"
    for s t f
    by (rule paired_append_writes [OF ws_fetch_prs_paired]) simp
  then show ?thesis
    using ws_fetch_prs_paired [of "user a" _ _ replies "[]"]
    by (auto simp: ws_main_def split_beta split: option.splits)
qed

lemma run_paired: "paired api (account script) (fst (run script e replies))"
  by (cases script)
    (simp_all add: fc_main_paired ys_main_paired lt_main_paired mp_main_paired
      mc_main_paired ws_main_paired)

lemma posts_simps [simp]:
  "posts [] = 0" "posts (Post url login # es) = Suc (posts es)"
  "posts (RaiseForStatus # es) = posts es" "posts (WriteFile f # es) = posts es"
  "posts (es @ es') = posts es + posts es'"
  by (simp_all add: posts_def)

lemma answered_simps [simp]:
  "answered [] = 0" "answered (r # rs) = (if failed r then 0 else Suc (answered rs))"
  by (simp_all add: answered_def)

lemma failed_simps [simp]:
  "failed ConnectionError" "failed HttpError" "\<not> failed Invalid" "\<not> failed Errors"
  "\<not> failed (Data p)"
  by (simp_all add: failed_def)

lemma written_append [simp]: "written (es @ es') = written es @ written es'"
  by (induction es rule: written.induct) auto

lemma ys_years_posts:
  "posts (fst (ys_years username years replies)) \<le> answered replies + 1
   \<and> (posts (fst (ys_years username years replies)) = answered replies + 1
        \<and> answered replies < length replies
      \<longrightarrow> snd (ys_years username years replies) = Uncaught)
   \<and> written (fst (ys_years username years replies)) = []"
proof (induction years arbitrary: replies)
  case Nil
  show ?case by simp
next
  case (Cons y years)
  show ?case
    using Cons.IH [of "tl replies"]
    by (cases replies)
      (auto simp: fetch_and_display_contributions_def graphql_post_def after_def
        split: reply.splits payload.splits option.splits)
qed

lemma lt_years_posts:
  "posts (fst (lt_years years replies yd)) \<le> answered replies + 1
   \<and> (posts (fst (lt_years years replies yd)) = answered replies + 1
        \<and> answered replies < length replies
      \<longrightarrow> snd (lt_years years replies yd) = Inl Uncaught)
   \<and> written (fst (lt_years years replies yd)) = []"
proof (induction years arbitrary: replies yd)
  case Nil
  show ?case by simp
next
  case (Cons y years)
  show ?case
    using Cons.IH [of "tl replies"]
    by (cases replies)
      (auto simp: graphql_post_def split_beta
        split: reply.splits payload.splits option.splits)
qed

lemma mp_years_posts:
  "posts (fst (mp_years username years replies cs)) \<le> answered replies + 1
   \<and> (posts (fst (mp_years username years replies cs)) = answered replies + 1
        \<and> answered replies < length replies
      \<longrightarrow> snd (mp_years username years replies cs) = Inl Uncaught)
   \<and> written (fst (mp_years username years replies cs)) = []"
proof (induction years arbitrary: replies cs)
  case Nil
  show ?case by simp
next
  case (Cons y years)
  show ?case
    using Cons.IH [of "tl replies"]
    by (cases replies)
      (auto simp: graphql_post_def split_beta
        split: reply.splits payload.splits option.splits)
qed

lemma mc_fetch_prs_posts:
  "posts (fst (mc_fetch_prs username replies all_prs)) \<le> answered replies + 1
   \<and> written (fst (mc_fetch_prs username replies all_prs)) = []"
  by (induction replies arbitrary: all_prs)
    (auto simp: graphql_post_def split_beta
      split: reply.splits payload.splits option.splits)

lemma ws_fetch_prs_posts:
  "posts (fst (ws_fetch_prs username s t replies all_prs)) \<le> answered replies + 1
   \<and> written (fst (ws_fetch_prs username s t replies all_prs)) = []"
  by (induction replies arbitrary: all_prs)
    (auto simp: graphql_post_def split_beta
      split: reply.splits payload.splits option.splits)

lemma mp_years_not_Finished: "snd (mp_years username years replies cs) \<noteq> Inl Finished"
proof (induction years arbitrary: replies cs)
  case Nil
  show ?case by simp
next
  case (Cons y years)
  show ?case
    using Cons.IH [of "tl replies"]
    by (cases replies)
      (auto simp: graphql_post_def split_beta
        split: reply.splits payload.splits option.splits)
qed

lemma mc_fetch_prs_not_Finished: "snd (mc_fetch_prs username replies all_prs) \<noteq> Inl Finished"
  by (induction replies arbitrary: all_prs)
    (auto simp: graphql_post_def split_beta
      split: reply.splits payload.splits option.splits)

lemma fc_main_posts:
  "posts (fst (fc_main a e replies)) \<le> answered replies + 1
   \<and> (posts (fst (fc_main a e replies)) = answered replies + 1
        \<and> answered replies < length replies
      \<longrightarrow> snd (fc_main a e replies) = Uncaught)
   \<and> written (fst (fc_main a e replies)) = []"
  by (cases replies)
    (auto simp: fc_main_def graphql_post_def
      split: reply.splits payload.splits option.splits)

lemma ys_main_posts:
  "posts (fst (ys_main a e replies)) \<le> answered replies + 1
   \<and> (posts (fst (ys_main a e replies)) = answered replies + 1
        \<and> answered replies < length replies
      \<longrightarrow> snd (ys_main a e replies) = Uncaught)
   \<and> written (fst (ys_main a e replies)) = []"
proof (cases "all_years a")
  case False
  then show ?thesis
    using ys_years_posts [of "user a" _ replies] by (simp add: ys_main_def del: ys_years.simps)
next
  case True
  then show ?thesis
    using ys_years_posts [of "user a" _ "tl replies"]
    by (cases replies)
      (auto simp: ys_main_def get_account_creation_year_def graphql_post_def after_def
        split: reply.splits payload.splits option.splits)
qed

lemma lt_main_posts:
  "posts (fst (lt_main argv e replies)) \<le> answered replies + 1
   \<and> (posts (fst (lt_main argv e replies)) = answered replies + 1
        \<and> answered replies < length replies
      \<longrightarrow> snd (lt_main argv e replies) = Uncaught)
   \<and> written (fst (lt_main argv e replies)) = []"
  using lt_years_posts [of _ "tl replies" "[]"]
  by (cases replies)
    (auto simp: lt_main_def graphql_post_def split_beta
      split: reply.splits payload.splits option.splits sum.splits)

lemma mp_main_posts:
  "posts (fst (mp_main a e replies)) \<le> answered replies + 1
   \<and> (posts (fst (mp_main a e replies)) = answered replies + 1
        \<and> answered replies < length replies
      \<longrightarrow> snd (mp_main a e replies) = Uncaught)
   \<and> written (fst (mp_main a e replies))
       = (if snd (mp_main a e replies) = Finished then [''monthly_productivity_data.json'']
          else [])"
  using mp_years_posts [of "user a" _ "tl replies" "[]"]
    mp_years_not_Finished [of "user a" _ "tl replies" "[]"]
  by (cases replies)
    (auto simp: mp_main_def graphql_post_def split_beta
      split: reply.splits payload.splits option.splits sum.splits)

lemma mc_main_posts:
  "posts (fst (mc_main a e replies)) \<le> answered replies + 1
   \<and> written (fst (mc_main a e replies))
       = (if snd (mc_main a e replies) = Finished then [''monthly_code_metrics_data.json'']
          else [])"
  using mc_fetch_prs_posts [of "user a" "tl replies" "[]"]
    mc_fetch_prs_not_Finished [of "user a" "tl replies" "[]"]
  by (cases replies)
    (auto simp: mc_main_def graphql_post_def split_beta
      split: reply.splits payload.splits option.splits sum.splits)

lemma ws_main_posts:
  "posts (fst (ws_main a e replies)) \<le> answered replies + 1
   \<and> written (fst (ws_main a e replies))
       = exported (WorkSummary a) (snd (ws_main a e replies))"
  using ws_fetch_prs_posts [of "user a" _ _ replies "[]"]
  by (auto simp: ws_main_def split_beta split: option.splits)

lemma run_posts: "posts (fst (run script e replies)) \<le> answered replies + 1"
  using fc_main_posts [of _ e replies] ys_main_posts [of _ e replies]
    lt_main_posts [of _ e replies] mp_main_posts [of _ e replies]
    mc_main_posts [of _ e replies] ws_main_posts [of _ e replies]
  by (cases script) auto

lemma run_uncaught:
  "\<not> catches script \<Longrightarrow> posts (fst (run script e replies)) = answered replies + 1 \<Longrightarrow>
   answered replies < length replies \<Longrightarrow> snd (run script e replies) = Uncaught"
  using fc_main_posts [of _ e replies] ys_main_posts [of _ e replies]
    lt_main_posts [of _ e replies] mp_main_posts [of _ e replies]
  by (cases script) auto

lemma run_written:
  "written (fst (run script e replies)) = exported script (snd (run script e replies))"
  using fc_main_posts [of _ e replies] ys_main_posts [of _ e replies]
    lt_main_posts [of _ e replies] mp_main_posts [of _ e replies]
    mc_main_posts [of _ e replies] ws_main_posts [of _ e replies]
  by (cases script) auto

subsection \<open>C4: raise\_for\_status, and what follows a failed request\<close>

lemma answered_le:
  assumes "i < length replies" "failed (replies ! i)"
  shows "answered replies \<le> i"
proof (rule ccontr)
  assume "\<not> answered replies \<le> i"
  then have i: "i < length (takeWhile (\<lambda>r. \<not> failed r) replies)"
    by (simp add: answered_def)
  then have "takeWhile (\<lambda>r. \<not> failed r) replies ! i \<in> set (takeWhile (\<lambda>r. \<not> failed r) replies)"
    by (rule nth_mem)
  then have "\<not> failed (takeWhile (\<lambda>r. \<not> failed r) replies ! i)"
    by (rule set_takeWhileD [THEN conjunct2])
  with i assms(2) show False by (simp add: takeWhile_nth)
qed

text \<open>
  In the two pagination loops a failed request is caught. The loop ends, not raising, with
  the pull requests fetched before the failure; the script then goes on as it does after
  any end of the loop. The first request of the code metrics analysis, for the account, is
  issued before the loop and outside the \<open>try\<close>.
\<close>

lemma mc_fetch_prs_caught:
  "i < posts (fst (mc_fetch_prs username replies all_prs)) \<Longrightarrow> i < length replies \<Longrightarrow>
   failed (replies ! i) \<Longrightarrow>
   snd (mc_fetch_prs username replies all_prs)
     = Inr (all_prs @ concat (map mc_nodes (take i replies)))"
proof (induction replies arbitrary: i all_prs)
  case Nil
  then show ?case by simp
next
  case (Cons r replies)
  show ?case
  proof (cases i)
    case 0
    with Cons.prems show ?thesis
      by (auto simp: graphql_post_def failed_def)
  next
    case (Suc j)
    with Cons.prems Cons.IH [of j] show ?thesis
      by (auto simp: graphql_post_def split_beta
          split: reply.splits payload.splits if_splits)
  qed
qed

lemma mc_main_caught:
  assumes "i < posts (fst (mc_main a e replies))" "i < length replies" "failed (replies ! i)"
  shows "snd (mc_main a e replies)
     = (if i = 0 then Uncaught
        else if concat (map mc_nodes (take i replies)) = [] then Exit 1 else Finished)"
proof (cases i)
  case 0
  with assms show ?thesis
    by (cases replies) (auto simp: mc_main_def graphql_post_def failed_def split: if_splits)
next
  case (Suc j)
  obtain r pages where replies: "replies = r # pages" using assms(2) by (cases replies) auto
  from assms(1) Suc replies obtain created where r: "r = Data (UserInfo created)"
    and tok: "truthy (get_token (token a) e)"
    using mc_fetch_prs_posts [of "user a" pages "[]"]
    by (auto simp: mc_main_def graphql_post_def split_beta
        split: reply.splits payload.splits if_splits sum.splits option.splits)
  from assms(1) Suc replies r tok have j: "j < posts (fst (mc_fetch_prs (user a) pages []))"
    by (auto simp: mc_main_def graphql_post_def split_beta
        split: if_splits sum.splits option.splits)
  from assms(2,3) Suc replies have "j < length pages" "failed (pages ! j)" by simp_all
  from mc_fetch_prs_caught [OF j this]
  have res: "snd (mc_fetch_prs (user a) pages []) = Inr (concat (map mc_nodes (take j pages)))"
    by simp
  obtain rep where "mc_analysis (concat (map mc_nodes (take j pages))) (workdays_per_week_arg a) = Some rep"
    using mc_analysis_total by blast
  with res tok show ?thesis
    by (simp add: mc_main_def graphql_post_def split_beta replies r Suc)
qed

lemma ws_fetch_prs_caught:
  "i < posts (fst (ws_fetch_prs username s t replies all_prs)) \<Longrightarrow> i < length replies \<Longrightarrow>
   failed (replies ! i) \<Longrightarrow>
   snd (ws_fetch_prs username s t replies all_prs) = (ws_kept s t (take i replies) all_prs, True)"
proof (induction replies arbitrary: i all_prs)
  case Nil
  then show ?case by simp
next
  case (Cons r replies)
  show ?case
  proof (cases i)
    case 0
    with Cons.prems show ?thesis
      by (auto simp: graphql_post_def failed_def ws_kept_def)
  next
    case (Suc j)
    with Cons.prems Cons.IH [of j] show ?thesis
      by (auto simp: graphql_post_def split_beta ws_kept_def
          split: reply.splits payload.splits if_splits)
  qed
qed

lemma ws_main_caught:
  assumes "ws_date_range a (now e) = Some (s, t)"
    "i < posts (fst (ws_main a e replies))" "i < length replies" "failed (replies ! i)"
  shows "snd (ws_main a e replies)
     = (if ws_kept s t (take i replies) [] = [] then Exit 0 else Finished)"
proof -
  from assms(1,2) have tok: "truthy (get_token (token a) e)"
    by (auto simp: ws_main_def split: if_splits)
  with assms(1,2) have "i < posts (fst (ws_fetch_prs (user a) s t replies []))"
    by (auto simp: ws_main_def split_beta split: if_splits option.splits)
  from ws_fetch_prs_caught [OF this assms(3,4)] tok assms(1) show ?thesis
    by (auto simp: ws_main_def split_beta split: option.splits)
qed

text \<open>
  C4 (as amended). In every run of every script the requests go to the endpoint for the
  script's account, and each is followed at once by exactly one \<open>raise_for_status\<close>, but
  for a last request that got no response. A request that fails (no response, or an error
  status) is never reissued: when the \<open>i\<close>-th reply is a failure, the run issues at most
  \<open>i + 1\<close> requests. In the four scripts that have no \<open>try\<close> (fetch commit contributions,
  yearly summary, lifetime analysis, monthly productivity) a failed request ends the run
  with the exception. The pagination loops of the monthly code metrics analysis and of the
  work summary catch the failure of their \<open>i\<close>-th request: the loop ends with \<open>all_prs\<close>
  holding the pull requests of the pages fetched before (in the work summary, those of
  them that the period filter kept), and the script goes on with them. The code metrics
  analysis then exits with status 1 when there are none and finishes otherwise, and the
  work summary exits with status 0 when there are none and finishes otherwise. The
  request of the code metrics analysis for the account (its request 0) is outside the
  \<open>try\<close>, and its failure ends the run with the exception.
\<close>

theorem requests_and_failures:
  "paired ''https://api.github.com/graphql'' (account script) (fst (run script e replies))
   \<and> (i < length replies \<and> failed (replies ! i)
        \<longrightarrow> posts (fst (run script e replies)) \<le> i + 1)
   \<and> (\<not> catches script \<and> i < posts (fst (run script e replies))
        \<and> i < length replies \<and> failed (replies ! i)
        \<longrightarrow> snd (run script e replies) = Uncaught)
   \<and> (i < posts (fst (mc_fetch_prs username replies code_prs))
        \<and> i < length replies \<and> failed (replies ! i)
        \<longrightarrow> snd (mc_fetch_prs username replies code_prs)
              = Inr (code_prs @ concat (map mc_nodes (take i replies))))
   \<and> (i < posts (fst (run (MonthlyCodeMetricsAnalysis code_metrics) e replies))
        \<and> i < length replies \<and> failed (replies ! i)
        \<longrightarrow> snd (run (MonthlyCodeMetricsAnalysis code_metrics) e replies)
              = (if i = 0 then Uncaught
                 else if concat (map mc_nodes (take i replies)) = [] then Exit 1
                 else Finished))
   \<and> (i < posts (fst (ws_fetch_prs username start_date end_date replies all_prs))
        \<and> i < length replies \<and> failed (replies ! i)
        \<longrightarrow> snd (ws_fetch_prs username start_date end_date replies all_prs)
              = (ws_kept start_date end_date (take i replies) all_prs, True))
   \<and> (ws_date_range summary (now e) = Some (start_date, end_date)
        \<and> i < posts (fst (run (WorkSummary summary) e replies))
        \<and> i < length replies \<and> failed (replies ! i)
        \<longrightarrow> snd (run (WorkSummary summary) e replies)
              = (if ws_kept start_date end_date (take i replies) [] = [] then Exit 0
                 else Finished))"
proof -
  have a: "paired ''https://api.github.com/graphql'' (account script) (fst (run script e replies))"
    using run_paired [of script e replies] by (simp add: api_def)
  have b: "posts (fst (run script e replies)) \<le> i + 1"
    if "i < length replies" "failed (replies ! i)"
    using run_posts [of script e replies] answered_le [OF that] by simp
  have c: "snd (run script e replies) = Uncaught"
    if "\<not> catches script" "i < posts (fst (run script e replies))"
      "i < length replies" "failed (replies ! i)"
  proof -
    from answered_le [OF that(3,4)] have "answered replies \<le> i" .
    moreover from that(2) run_posts [of script e replies] have "i \<le> answered replies" by simp
    ultimately have "i = answered replies" by simp
    with that(2,3) run_posts [of script e replies]
    have "posts (fst (run script e replies)) = answered replies + 1"
      "answered replies < length replies" by simp_all
    with that(1) show ?thesis by (rule run_uncaught)
  qed
  have d: "snd (mc_fetch_prs username replies code_prs)
      = Inr (code_prs @ concat (map mc_nodes (take i replies)))"
    if "i < posts (fst (mc_fetch_prs username replies code_prs))"
      "i < length replies" "failed (replies ! i)"
    using that by (rule mc_fetch_prs_caught)
  have f: "snd (run (MonthlyCodeMetricsAnalysis code_metrics) e replies)
      = (if i = 0 then Uncaught
         else if concat (map mc_nodes (take i replies)) = [] then Exit 1 else Finished)"
    if "i < posts (fst (run (MonthlyCodeMetricsAnalysis code_metrics) e replies))"
      "i < length replies" "failed (replies ! i)"
    using mc_main_caught [of i code_metrics e replies] that by simp
  have g: "snd (ws_fetch_prs username start_date end_date replies all_prs)
      = (ws_kept start_date end_date (take i replies) all_prs, True)"
    if "i < posts (fst (ws_fetch_prs username start_date end_date replies all_prs))"
      "i < length replies" "failed (replies ! i)"
    using that by (rule ws_fetch_prs_caught)
  have h: "snd (run (WorkSummary summary) e replies)
      = (if ws_kept start_date end_date (take i replies) [] = [] then Exit 0 else Finished)"
    if "ws_date_range summary (now e) = Some (start_date, end_date)"
      "i < posts (fst (run (WorkSummary summary) e replies))"
      "i < length replies" "failed (replies ! i)"
    using ws_main_caught [of summary e start_date end_date i replies] that by simp
  from a b c d f g h show ?thesis by blast
qed

text \<open>
  The theorem at runs in which a request gets an error status or no response. The
  monthly productivity analysis, second request failing: two requests, each with its
  \<open>raise_for_status\<close>, and the run ends with the exception. The code metrics analysis:
  when the second page fails, the loop ends with the pull request of the first page and
  the run finishes; when the first page fails, no pull request was fetched and the run
  exits with status 1; when the account request fails, the run ends with the exception.
  The work summary, second page failing: the loop ends with the pull request of the first
  page and the run finishes.
\<close>

theorem requests_and_failures_witness:
  "paired ''https://api.github.com/graphql'' ''octocat''
     (fst (run productivity_of_octocat env_2025
        [Data (UserInfo (at_midnight 2024 3 1)), HttpError, Data (Calendar [])]))
   \<and> failed ([Data (UserInfo (at_midnight 2024 3 1)), HttpError, Data (Calendar [])] ! 1)
   \<and> posts (fst (run productivity_of_octocat env_2025
        [Data (UserInfo (at_midnight 2024 3 1)), HttpError, Data (Calendar [])])) = 2
   \<and> snd (run productivity_of_octocat env_2025
        [Data (UserInfo (at_midnight 2024 3 1)), HttpError, Data (Calendar [])]) = Uncaught
   \<and> snd (mc_fetch_prs ''octocat''
        [Data (CodePullRequests [code_pr_of (at_midnight 2025 6 10)] True), HttpError] [])
       = Inr [code_pr_of (at_midnight 2025 6 10)]
   \<and> snd (run code_metrics_of_octocat env_2025
        [Data (UserInfo (at_midnight 2024 3 1)),
         Data (CodePullRequests [code_pr_of (at_midnight 2025 6 10)] True), HttpError])
       = Finished
   \<and> snd (run code_metrics_of_octocat env_2025
        [Data (UserInfo (at_midnight 2024 3 1)), ConnectionError]) = Exit 1
   \<and> snd (run code_metrics_of_octocat env_2025 [HttpError]) = Uncaught
   \<and> snd (ws_fetch_prs ''octocat''
        (instant (now env_2025) - timedelta_days 30) (instant (now env_2025))
        [Data (PullRequests [pr_of 7 (at_midnight 2025 6 10) (at_midnight 2025 6 11)] True),
         HttpError] [])
       = ([pr_of 7 (at_midnight 2025 6 10) (at_midnight 2025 6 11)], True)
   \<and> snd (run summary_with_export env_2025
        [Data (PullRequests [pr_of 7 (at_midnight 2025 6 10) (at_midnight 2025 6 11)] True),
         HttpError]) = Finished"
proof -
  let ?replies = "[Data (UserInfo (at_midnight 2024 3 1)), HttpError, Data (Calendar [])]"
  let ?run = "run productivity_of_octocat env_2025 ?replies"
  note main = requests_and_failures [of productivity_of_octocat env_2025 ?replies 1]
  have acc: "account productivity_of_octocat = ''octocat''"
    by (simp add: productivity_of_octocat_def)
  have f: "(1::nat) < length ?replies" "failed (?replies ! 1)" by simp_all
  have c: "\<not> catches productivity_of_octocat" by (simp add: productivity_of_octocat_def)
  have p: "posts (fst ?run) = 2" by code_simp
  from main acc have 1: "paired ''https://api.github.com/graphql'' ''octocat'' (fst ?run)" by simp
  from main f c p have 2: "snd ?run = Uncaught" by simp

  let ?code_pages = "[Data (CodePullRequests [code_pr_of (at_midnight 2025 6 10)] True), HttpError]"
  let ?a = "\<lparr>user = ''octocat'', token = None, detailed = False, workdays_per_week_arg = 5\<rparr>"
  have cm: "code_metrics_of_octocat = MonthlyCodeMetricsAnalysis ?a"
    by (simp add: code_metrics_of_octocat_def)
  have "(1::nat) < posts (fst (mc_fetch_prs ''octocat'' ?code_pages []))" by code_simp
  moreover have "(1::nat) < length ?code_pages" "failed (?code_pages ! 1)" by simp_all
  moreover note requests_and_failures
    [where i = 1 and username = "''octocat''" and replies = ?code_pages and code_prs = "[]"]
  ultimately have 3: "snd (mc_fetch_prs ''octocat'' ?code_pages [])
      = Inr [code_pr_of (at_midnight 2025 6 10)]"
    by simp
  let ?code_replies = "Data (UserInfo (at_midnight 2024 3 1)) # ?code_pages"
  have "(2::nat) < posts (fst (run (MonthlyCodeMetricsAnalysis ?a) env_2025 ?code_replies))"
    by code_simp
  moreover have "(2::nat) < length ?code_replies" "failed (?code_replies ! 2)" by simp_all
  moreover note requests_and_failures
    [where i = 2 and code_metrics = ?a and e = env_2025 and replies = ?code_replies]
  ultimately have 4: "snd (run code_metrics_of_octocat env_2025 ?code_replies) = Finished"
    unfolding cm by simp
  let ?none = "[Data (UserInfo (at_midnight 2024 3 1)), ConnectionError]"
  have "(1::nat) < posts (fst (run (MonthlyCodeMetricsAnalysis ?a) env_2025 ?none))"
    by code_simp
  moreover have "(1::nat) < length ?none" "failed (?none ! 1)" by simp_all
  moreover note requests_and_failures
    [where i = 1 and code_metrics = ?a and e = env_2025 and replies = ?none]
  ultimately have 5: "snd (run code_metrics_of_octocat env_2025 ?none) = Exit 1"
    unfolding cm by simp
  have "(0::nat) < posts (fst (run (MonthlyCodeMetricsAnalysis ?a) env_2025 [HttpError]))"
    by code_simp
  moreover have "(0::nat) < length [HttpError]" "failed ([HttpError] ! 0)" by simp_all
  moreover note requests_and_failures
    [where i = 0 and code_metrics = ?a and e = env_2025 and replies = "[HttpError]"]
  ultimately have 6: "snd (run code_metrics_of_octocat env_2025 [HttpError]) = Uncaught"
    unfolding cm by simp

  let ?pr = "pr_of 7 (at_midnight 2025 6 10) (at_midnight 2025 6 11)"
  let ?pages = "[Data (PullRequests [?pr] True), HttpError]"
  let ?s = "instant (now env_2025) - timedelta_days 30"
  let ?t = "instant (now env_2025)"
  let ?w = "\<lparr>user = ''octocat'', token = None, period = LastMonth, start_arg = Absent,
             end_arg = Absent, export = Some ''summary.json''\<rparr>"
  have sw: "summary_with_export = WorkSummary ?w" by (simp add: summary_with_export_def)
  note ws = requests_and_failures
    [where i = 1 and username = "''octocat''" and replies = ?pages and all_prs = "[]"
       and start_date = ?s and end_date = ?t and summary = ?w and e = env_2025]
  have kept: "ws_kept ?s ?t (take 1 ?pages) [] = [?pr]" by code_simp
  have "(1::nat) < posts (fst (ws_fetch_prs ''octocat'' ?s ?t ?pages []))" by code_simp
  moreover have "(1::nat) < posts (fst (run (WorkSummary ?w) env_2025 ?pages))" by code_simp
  moreover have "ws_date_range ?w (now env_2025) = Some (?s, ?t)" by code_simp
  moreover have "(1::nat) < length ?pages" "failed (?pages ! 1)" by simp_all
  ultimately have 7: "snd (ws_fetch_prs ''octocat'' ?s ?t ?pages []) = ([?pr], True)"
    and 8: "snd (run summary_with_export env_2025 ?pages) = Finished"
    using ws kept unfolding sw by simp_all
  from 1 2 3 4 5 6 7 8 f p show ?thesis by simp
qed

text \<open>
  C4 as stated fails in the work summary (and in the same way in the monthly code metrics
  analysis): the pagination loop is in a \<open>try\<close> whose handler prints the exception and
  leaves the loop. When the second page fails with an error status, the script goes on
  with the pull request of the first page, prints its summary, writes the export and
  finishes.
\<close>

theorem requests_and_failures_counterexample:
  "run summary_with_export env_2025
     [Data (PullRequests [pr_of 7 (at_midnight 2025 6 10) (at_midnight 2025 6 11)] True),
      HttpError]
   = ([Post ''https://api.github.com/graphql'' ''octocat'', RaiseForStatus,
       Post ''https://api.github.com/graphql'' ''octocat'', RaiseForStatus,
       WriteFile ''summary.json''], Finished)"
  by code_simp

subsection \<open>C8: the endpoint\<close>

text \<open>
  C8. Every HTTP request of every script, in every run and every iteration of a
  pagination or year loop, is a POST to \<open>https://api.github.com/graphql\<close>.
\<close>

theorem every_request_posts_to_the_endpoint:
  "Post url login \<in> set (fst (run script e replies))
     \<Longrightarrow> url = ''https://api.github.com/graphql''"
  using run_paired [of script e replies] paired_Post by (auto simp: api_def)

text \<open>The theorem at a run of the work summary that fetches two pages.\<close>

theorem every_request_posts_to_the_endpoint_witness:
  "Post ''https://api.github.com/graphql'' ''octocat''
     \<in> set (fst (run summary_with_export env_2025
          [Data (PullRequests [pr_of 7 (at_midnight 2025 6 10) (at_midnight 2025 6 11)] True),
           Data (PullRequests [] False)]))
   \<and> posts (fst (run summary_with_export env_2025
          [Data (PullRequests [pr_of 7 (at_midnight 2025 6 10) (at_midnight 2025 6 11)] True),
           Data (PullRequests [] False)])) = 2"
proof -
  let ?run = "run summary_with_export env_2025
          [Data (PullRequests [pr_of 7 (at_midnight 2025 6 10) (at_midnight 2025 6 11)] True),
           Data (PullRequests [] False)]"
  have mem: "Post ''https://api.github.com/graphql'' ''octocat'' \<in> set (fst ?run)"
    and n: "posts (fst ?run) = 2"
    by code_simp+
  from every_request_posts_to_the_endpoint [OF mem] mem n show ?thesis by simp
qed

subsection \<open>C6: the account\<close>

text \<open>
  C6 (as amended). In every run of the five scripts that parse command-line arguments,
  the login sent with every request is the username given on the command line; the
  lifetime contribution analysis parses no arguments and sends the login
  \<open>joelbrostrom\<close> with every request.
\<close>

theorem login_is_the_account:
  "Post url login \<in> set (fst (run script e replies)) \<Longrightarrow> login = account script"
  using run_paired [of script e replies] paired_Post by blast

text \<open>The theorem at a run of the monthly code metrics analysis for \<open>octocat\<close>.\<close>

theorem login_is_the_account_witness:
  "Post ''https://api.github.com/graphql'' ''octocat''
     \<in> set (fst (run code_metrics_of_octocat env_2025 [Data (UserInfo (at_midnight 2024 3 1))]))
   \<and> account code_metrics_of_octocat = ''octocat''"
proof -
  have "Post ''https://api.github.com/graphql'' ''octocat''
     \<in> set (fst (run code_metrics_of_octocat env_2025 [Data (UserInfo (at_midnight 2024 3 1))]))"
    by code_simp
  with login_is_the_account [OF this] show ?thesis by simp
qed

text \<open>
  C6 as stated fails for the lifetime contribution analysis: started with
  \<open>-u octocat\<close>, it asks for \<open>joelbrostrom\<close>.
\<close>

theorem login_is_the_account_counterexample:
  "fst (run (LifetimeContributionAnalysis [''-u'', ''octocat'']) env_2025 [])
     = [Post ''https://api.github.com/graphql'' ''joelbrostrom'']
   \<and> ''joelbrostrom'' \<noteq> ''octocat''"
  by code_simp

subsection \<open>C5: the files written\<close>

text \<open>
  C5 (as amended). The files a run writes are determined by the script and the way the
  run ends: the work summary writes one file, the path given with \<open>--export\<close>, when it
  finishes and the option is given (and not empty), and none otherwise; the monthly
  productivity analysis and the monthly code metrics analysis have no such option and
  write \<open>monthly_productivity_data.json\<close> and \<open>monthly_code_metrics_data.json\<close> whenever
  they finish; the other three scripts write no file.
\<close>

theorem files_written:
  "written (fst (run script e replies)) = exported script (snd (run script e replies))"
  by (rule run_written)

text \<open>
  C5 as stated fails for the monthly productivity analysis (and in the same way for the
  monthly code metrics analysis): it has no export option, and a run that finishes writes
  its JSON file.
\<close>

theorem files_written_counterexample:
  "run productivity_of_octocat env_2025
     [Data (UserInfo (at_midnight 2025 1 6)),
      Data (Calendar [[\<lparr>c_date = \<lparr>year = 2025, month = 1, day = 6\<rparr>, c_count = 10\<rparr>]])]
   = ([Post ''https://api.github.com/graphql'' ''octocat'', RaiseForStatus,
       Post ''https://api.github.com/graphql'' ''octocat'', RaiseForStatus,
       WriteFile ''monthly_productivity_data.json''], Finished)"
  by code_simp

subsection \<open>C9: the period filter of the work summary\<close>

lemma ws_filter_in_period:
  "list_all (in_period s t) all_prs \<Longrightarrow> list_all (in_period s t) (fst (ws_filter s t prs all_prs))"
  by (induction prs arbitrary: all_prs) (auto simp: Let_def)

lemma ws_fetch_prs_in_period:
  "list_all (in_period s t) all_prs
     \<Longrightarrow> list_all (in_period s t) (fst (snd (ws_fetch_prs username s t replies all_prs)))"
proof (induction replies arbitrary: all_prs)
  case Nil
  then show ?case by simp
next
  case (Cons r replies)
  from Cons.prems have "list_all (in_period s t) (fst (ws_filter s t prs all_prs))" for prs
    by (rule ws_filter_in_period)
  with Cons show ?case
    by (auto simp: graphql_post_def split_beta
      split: reply.splits payload.splits option.splits)
qed

text \<open>
  C9. In the work summary, that every pull request of \<open>all_prs\<close> was created or updated
  within \<open>[start_date, end_date]\<close> is an invariant of both loops: from a list that
  satisfies it (the empty list the script starts with does), it holds of \<open>all_prs\<close>
  after the loop over any nodes \<open>prs\<close> (so after every append within a page, \<open>prs\<close> being
  any prefix of the page) and after the pagination loop over any replies (so after every
  page, and of the list the summary is made of).
\<close>

theorem summary_prs_are_in_the_period:
  "list_all (in_period start_date end_date) all_prs \<Longrightarrow>
     list_all (in_period start_date end_date)
       (fst (ws_filter start_date end_date prs all_prs))
     \<and> list_all (in_period start_date end_date)
         (fst (snd (ws_fetch_prs username start_date end_date replies all_prs)))"
  by (simp add: ws_filter_in_period ws_fetch_prs_in_period)

text \<open>
  The theorem at January 2025 and a page of four pull requests: the first two are kept
  (the second for its update), the third was created and updated before the period and
  ends the loop.
\<close>

theorem summary_prs_are_in_the_period_witness:
  "list_all (in_period (instant (at_midnight 2025 1 1)) (instant (at_midnight 2025 2 1))) []
   \<and> fst (ws_filter (instant (at_midnight 2025 1 1)) (instant (at_midnight 2025 2 1))
          [pr_of 4 (at_midnight 2025 1 10) (at_midnight 2025 1 12),
           pr_of 3 (at_midnight 2024 12 20) (at_midnight 2025 1 5),
           pr_of 2 (at_midnight 2024 11 1) (at_midnight 2024 11 2),
           pr_of 1 (at_midnight 2024 10 1) (at_midnight 2025 1 3)] [])
       = [pr_of 4 (at_midnight 2025 1 10) (at_midnight 2025 1 12),
          pr_of 3 (at_midnight 2024 12 20) (at_midnight 2025 1 5)]
   \<and> list_all (in_period (instant (at_midnight 2025 1 1)) (instant (at_midnight 2025 2 1)))
        [pr_of 4 (at_midnight 2025 1 10) (at_midnight 2025 1 12),
         pr_of 3 (at_midnight 2024 12 20) (at_midnight 2025 1 5)]"
proof -
  let ?s = "instant (at_midnight 2025 1 1)" and ?t = "instant (at_midnight 2025 2 1)"
  let ?prs = "[pr_of 4 (at_midnight 2025 1 10) (at_midnight 2025 1 12),
           pr_of 3 (at_midnight 2024 12 20) (at_midnight 2025 1 5),
           pr_of 2 (at_midnight 2024 11 1) (at_midnight 2024 11 2),
           pr_of 1 (at_midnight 2024 10 1) (at_midnight 2025 1 3)]"
  have init: "list_all (in_period ?s ?t) []" by simp
  have res: "fst (ws_filter ?s ?t ?prs [])
       = [pr_of 4 (at_midnight 2025 1 10) (at_midnight 2025 1 12),
          pr_of 3 (at_midnight 2024 12 20) (at_midnight 2025 1 5)]"
    by code_simp
  from summary_prs_are_in_the_period [OF init, of ?prs "''octocat''" "[]"] res init
  show ?thesis by simp
qed

end
